theory Spec2Isabelle
  imports Complex_Main
begin

section \<open>Python values and the built-in operations the workflow engine applies to them\<close>

text \<open>
  The workflow engine of \<^verbatim>\<open>src/dashboard_api/main.py\<close> stores the options of a step as JSON
  text and reads them back with \<^verbatim>\<open>json.loads\<close>; the language-model helpers of
  \<^verbatim>\<open>src/dashboard_api/agent_intel.py\<close> return whatever JSON the model produced. The values are
  modelled by the datatype \<open>json\<close>. A string is a list of characters, each character one code
  point below 256. JSON numbers with a fraction are not modelled.
\<close>

datatype json =
    JNull
  | JBool bool
  | JInt int
  | JStr string
  | JList "json list"
  | JDict "(string \<times> json) list"

text \<open>The exceptions that the modelled code can raise.\<close>

datatype error =
    NotFound
  | IndexError
  | KeyError
  | TypeError
  | AttributeError
  | ValueError

text \<open>\<^verbatim>\<open>bool(x)\<close>: the truth value Python gives to a value.\<close>

fun truthy :: "json \<Rightarrow> bool" where
  "truthy JNull = False"
| "truthy (JBool b) = b"
| "truthy (JInt n) = (n \<noteq> 0)"
| "truthy (JStr s) = (s \<noteq> [])"
| "truthy (JList xs) = (xs \<noteq> [])"
| "truthy (JDict kvs) = (kvs \<noteq> [])"

text \<open>\<^verbatim>\<open>iter(x)\<close> run to the end: a list yields its elements, a dict its keys, a string its
  characters; anything else is not iterable.\<close>

fun py_iter :: "json \<Rightarrow> error + json list" where
  "py_iter (JList xs) = Inr xs"
| "py_iter (JDict kvs) = Inr (map (\<lambda>kv. JStr (fst kv)) kvs)"
| "py_iter (JStr s) = Inr (map (\<lambda>c. JStr [c]) s)"
| "py_iter _ = Inl TypeError"

text \<open>\<^verbatim>\<open>x[0]\<close>. The keys of a dict read from JSON are strings, so \<open>0\<close> is never one of them.\<close>

fun py_first :: "json \<Rightarrow> error + json" where
  "py_first (JList []) = Inl IndexError"
| "py_first (JList (x # xs)) = Inr x"
| "py_first (JStr []) = Inl IndexError"
| "py_first (JStr (c # cs)) = Inr (JStr [c])"
| "py_first (JDict kvs) = Inl KeyError"
| "py_first _ = Inl TypeError"

text \<open>\<^verbatim>\<open>x[k]\<close> for a string key \<open>k\<close>.\<close>

fun py_getitem :: "json \<Rightarrow> string \<Rightarrow> error + json" where
  "py_getitem (JDict kvs) k = (case map_of kvs k of None \<Rightarrow> Inl KeyError | Some v \<Rightarrow> Inr v)"
| "py_getitem _ k = Inl TypeError"

text \<open>\<^verbatim>\<open>x.get(k, default)\<close>: only a dict has the method.\<close>

fun py_get :: "json \<Rightarrow> string \<Rightarrow> json \<Rightarrow> error + json" where
  "py_get (JDict kvs) k d = (case map_of kvs k of None \<Rightarrow> Inr d | Some v \<Rightarrow> Inr v)"
| "py_get _ k d = Inl AttributeError"

subsection \<open>Strings\<close>

text \<open>\<^verbatim>\<open>str.isspace\<close> on one code point below 256.\<close>

definition is_space :: "char \<Rightarrow> bool" where
  "is_space c =
     (let n = (of_char c :: nat)
      in (9 \<le> n \<and> n \<le> 13) \<or> (28 \<le> n \<and> n \<le> 32) \<or> n = 133 \<or> n = 160)"

definition strip :: "string \<Rightarrow> string" where
  "strip s = rev (dropWhile is_space (rev (dropWhile is_space s)))"

text \<open>\<^verbatim>\<open>s.split(sep)\<close> for a separator of one character: never an empty list.\<close>

fun split_on :: "char \<Rightarrow> string \<Rightarrow> string list" where
  "split_on sep [] = [[]]"
| "split_on sep (c # cs) =
     (if c = sep then [] # split_on sep cs
      else (case split_on sep cs of
              [] \<Rightarrow> [[c]]
            | w # ws \<Rightarrow> (c # w) # ws))"

text \<open>\<^verbatim>\<open>sep.join(parts)\<close> on strings.\<close>

fun join :: "string \<Rightarrow> string list \<Rightarrow> string" where
  "join sep [] = []"
| "join sep [x] = x"
| "join sep (x # y # ys) = x @ sep @ join sep (y # ys)"

text \<open>\<^verbatim>\<open>a in b\<close> for two strings: \<open>a\<close> occurs in \<open>b\<close> as a contiguous run.\<close>

fun is_prefix :: "string \<Rightarrow> string \<Rightarrow> bool" where
  "is_prefix [] ys = True"
| "is_prefix (x # xs) [] = False"
| "is_prefix (x # xs) (y # ys) = (x = y \<and> is_prefix xs ys)"

fun is_substring :: "string \<Rightarrow> string \<Rightarrow> bool" where
  "is_substring xs [] = (xs = [])"
| "is_substring xs (y # ys) = (is_prefix xs (y # ys) \<or> is_substring xs ys)"

text \<open>Decimal digits, for \<^verbatim>\<open>str(n)\<close> and \<^verbatim>\<open>int(s)\<close>.\<close>

definition digit_char :: "nat \<Rightarrow> char" where
  "digit_char d = char_of (48 + d)"

definition is_digit :: "char \<Rightarrow> bool" where
  "is_digit c = (let n = (of_char c :: nat) in 48 \<le> n \<and> n \<le> 57)"

definition digit_val :: "char \<Rightarrow> nat" where
  "digit_val c = (of_char c :: nat) - 48"

function show_nat :: "nat \<Rightarrow> string" where
  "show_nat n = (if n < 10 then [digit_char n] else show_nat (n div 10) @ [digit_char (n mod 10)])"
  by pat_completeness auto
termination
  by (relation "measure id") auto

definition show_int :: "int \<Rightarrow> string" where
  "show_int i = (if i < 0 then CHR ''-'' # show_nat (nat (- i)) else show_nat (nat i))"

text \<open>\<^verbatim>\<open>int(s)\<close> for a string: surrounding white space is dropped, a sign may lead, and
  single underscores may stand between digits. \<open>None\<close> is the \<^verbatim>\<open>ValueError\<close>.\<close>

fun parse_digits :: "nat \<Rightarrow> bool \<Rightarrow> string \<Rightarrow> nat option" where
  "parse_digits acc d [] = (if d then Some acc else None)"
| "parse_digits acc d (c # cs) =
     (if is_digit c then parse_digits (10 * acc + digit_val c) True cs
      else if c = CHR ''_'' \<and> d then parse_digits acc False cs
      else None)"

definition int_of_string :: "string \<Rightarrow> int option" where
  "int_of_string s =
     (case strip s of
        [] \<Rightarrow> None
      | c # cs \<Rightarrow>
          if c = CHR ''-'' then map_option (\<lambda>n. - int n) (parse_digits 0 False cs)
          else if c = CHR ''+'' then map_option int (parse_digits 0 False cs)
          else map_option int (parse_digits 0 False (c # cs)))"

text \<open>\<^verbatim>\<open>int(x)\<close> on a value.\<close>

fun py_int :: "json \<Rightarrow> error + int" where
  "py_int (JInt n) = Inr n"
| "py_int (JBool b) = Inr (if b then 1 else 0)"
| "py_int (JStr s) = (case int_of_string s of None \<Rightarrow> Inl ValueError | Some n \<Rightarrow> Inr n)"
| "py_int _ = Inl TypeError"

text \<open>\<^verbatim>\<open>repr(x)\<close> and \<^verbatim>\<open>str(x)\<close>. A string is quoted with an apostrophe unless it holds an
  apostrophe and no double quote; the quote, the backslash and the characters that do not
  print are escaped.\<close>

definition hex_digit :: "nat \<Rightarrow> char" where
  "hex_digit d = (if d < 10 then char_of (48 + d) else char_of (87 + d))"

definition escape_char :: "char \<Rightarrow> char \<Rightarrow> string" where
  "escape_char q c =
     (let n = (of_char c :: nat)
      in if c = q \<or> n = 92 then [char_of (92::nat), c]
         else if n = 9 then [char_of (92::nat), CHR ''t'']
         else if n = 10 then [char_of (92::nat), CHR ''n'']
         else if n = 13 then [char_of (92::nat), CHR ''r'']
         else if n < 32 \<or> n = 127 \<or> (128 \<le> n \<and> n \<le> 160) \<or> n = 173
           then [char_of (92::nat), CHR ''x'', hex_digit (n div 16), hex_digit (n mod 16)]
         else [c])"

definition repr_str :: "string \<Rightarrow> string" where
  "repr_str s =
     (let q = (if char_of (39::nat) \<in> set s \<and> char_of (34::nat) \<notin> set s
               then char_of (34::nat) else char_of (39::nat))
      in q # concat (map (escape_char q) s) @ [q])"

fun py_repr :: "json \<Rightarrow> string" where
  "py_repr JNull = ''None''"
| "py_repr (JBool b) = (if b then ''True'' else ''False'')"
| "py_repr (JInt n) = show_int n"
| "py_repr (JStr s) = repr_str s"
| "py_repr (JList xs) = ''['' @ join '', '' (map py_repr xs) @ '']''"
| "py_repr (JDict kvs) =
     ''{'' @ join '', '' (map (\<lambda>kv. repr_str (fst kv) @ '': '' @ py_repr (snd kv)) kvs) @ ''}''"

fun py_str :: "json \<Rightarrow> string" where
  "py_str (JStr s) = s"
| "py_str v = py_repr v"

text \<open>\<^verbatim>\<open>s in x\<close> for a string \<open>s\<close>: membership in a list, key of a dict, substring of a string.\<close>

fun py_in :: "string \<Rightarrow> json \<Rightarrow> error + bool" where
  "py_in s (JList xs) = Inr (JStr s \<in> set xs)"
| "py_in s (JDict kvs) = Inr (s \<in> set (map fst kvs))"
| "py_in s (JStr t) = Inr (is_substring s t)"
| "py_in s _ = Inl TypeError"

text \<open>\<^verbatim>\<open>sep.join(x)\<close> on a value: \<open>x\<close> must be iterable and yield strings only.\<close>

fun is_str :: "json \<Rightarrow> bool" where
  "is_str (JStr s) = True"
| "is_str _ = False"

definition py_join :: "string \<Rightarrow> json \<Rightarrow> error + string" where
  "py_join sep x =
     (case py_iter x of
        Inl e \<Rightarrow> Inl e
      | Inr ys \<Rightarrow> if list_all is_str ys then Inr (join sep (map py_str ys)) else Inl TypeError)"

text \<open>\<^verbatim>\<open>a or b\<close> on optional strings: \<^verbatim>\<open>None\<close> and the empty string are false.\<close>

fun or_else :: "string option \<Rightarrow> string \<Rightarrow> string" where
  "or_else None d = d"
| "or_else (Some s) d = (if s = [] then d else s)"

text \<open>Sequencing of steps that may raise: the first exception ends the computation.\<close>

definition and_then :: "error + 'a \<Rightarrow> ('a \<Rightarrow> error + 'b) \<Rightarrow> error + 'b" where
  "and_then m f = (case m of Inl e \<Rightarrow> Inl e | Inr x \<Rightarrow> f x)"

section \<open>The language-model helpers of \<^verbatim>\<open>agent_intel.py\<close>\<close>

text \<open>
  What lies outside the repository is a parameter of the model:
  \<^item> \<open>client\<close>: whether an API key was found, so that \<^verbatim>\<open>client\<close> is not \<^verbatim>\<open>None\<close>;
  \<^item> \<open>llm_directions\<close>, \<open>llm_strategy\<close>, \<open>llm_deliverables\<close>: the value of
    \<^verbatim>\<open>json.loads(_clean_json(response.text))\<close> in the \<^verbatim>\<open>try\<close> block of the helper, \<open>None\<close> when
    the block raises;
  \<^item> \<open>utcnow\<close>: the clock, in seconds;
  \<^item> \<open>json_loads\<close>: \<^verbatim>\<open>json.loads\<close> of the standard library, \<open>None\<close> when it raises;
  \<^item> \<open>exc_text\<close>: the message text of an exception.
\<close>

record env =
  client :: bool
  llm_directions :: "json option"
  llm_strategy :: "json option"
  llm_deliverables :: "json option"
  utcnow :: nat
  json_loads :: "string \<Rightarrow> json option"
  exc_text :: "error \<Rightarrow> string"

definition fallback_directions :: "string \<Rightarrow> json" where
  "fallback_directions project_name =
     JList
      [JDict [(''key'', JStr ''A''), (''title'', JStr ''Market Leader''),
              (''description'',
               JStr (''Position '' @ project_name @ '' as the premium authority in the space.''))],
       JDict [(''key'', JStr ''B''), (''title'', JStr ''Disruptor''),
              (''description'',
               JStr (''Challenge the status quo with a bold, unexpected approach for ''
                     @ project_name @ ''.''))],
       JDict [(''key'', JStr ''C''), (''title'', JStr ''Community-First''),
              (''description'',
               JStr (''Build '' @ project_name @ '' around deep connection and shared values.''))]]"

definition generate_strategic_directions_llm :: "env \<Rightarrow> string \<Rightarrow> string \<Rightarrow> json" where
  "generate_strategic_directions_llm ev project_name brief =
     (if \<not> client ev then fallback_directions project_name
      else (case llm_directions ev of
              Some j \<Rightarrow> j
            | None \<Rightarrow> fallback_directions project_name))"

definition fallback_strategy :: "string \<Rightarrow> json \<Rightarrow> json" where
  "fallback_strategy project_name direction =
     JDict
      [(''positioning'', JStr (project_name @ '' is the definitive choice for the modern era.'')),
       (''pillars'',
        JList [JStr ''Quality First'', JStr ''Customer Obsession'', JStr ''Sustainable Core'']),
       (''tensions'',
        JList [JStr ''Global vs Local'', JStr ''Premium vs Accessible'', JStr ''Timeless vs Modern'']),
       (''principles'', JList [JStr ''Simplicity'', JStr ''Clarity'', JStr ''Warmth''])]"

text \<open>The prompt of \<^verbatim>\<open>expand_strategy_llm\<close> reads the title and the description of the chosen
  direction before the \<^verbatim>\<open>try\<close> block, so a direction without them raises.\<close>

definition expand_strategy_llm :: "env \<Rightarrow> string \<Rightarrow> string \<Rightarrow> json \<Rightarrow> error + json" where
  "expand_strategy_llm ev project_name brief chosen_direction =
     (if \<not> client ev then Inr (fallback_strategy project_name chosen_direction)
      else and_then (py_getitem chosen_direction ''title'') (\<lambda>t.
           and_then (py_getitem chosen_direction ''description'') (\<lambda>d.
             (case llm_strategy ev of
                Some j \<Rightarrow> Inr j
              | None \<Rightarrow> Inr (fallback_strategy project_name chosen_direction)))))"

text \<open>\<^verbatim>\<open>_safe_sub\<close> and \<^verbatim>\<open>_fallback_deliverables\<close>. The budget is an \<^verbatim>\<open>int\<close> at the only call, so
  \<^verbatim>\<open>int(budget)\<close> is the budget; a cost that \<^verbatim>\<open>int\<close> refuses counts as 0.\<close>

definition safe_sub :: "int \<Rightarrow> int \<Rightarrow> int" where
  "safe_sub a b = a - b"

definition cost_or_zero :: "json \<Rightarrow> int" where
  "cost_or_zero v = (case py_int v of Inl e \<Rightarrow> 0 | Inr c \<Rightarrow> c)"

fun fallback_deliverables :: "int \<Rightarrow> json list \<Rightarrow> error + string list" where
  "fallback_deliverables r_val [] = Inr []"
| "fallback_deliverables r_val (d # ds) =
     and_then (py_get d ''cost'' (JInt 0)) (\<lambda>v.
       let c_val = cost_or_zero v
       in if c_val \<le> r_val
          then and_then (py_get d ''key'' (JStr [])) (\<lambda>k.
               and_then (fallback_deliverables (safe_sub r_val c_val) ds) (\<lambda>selected.
                 Inr (py_str k # selected)))
          else fallback_deliverables r_val ds)"

text \<open>The branch of \<^verbatim>\<open>recommend_deliverables_llm\<close> taken without a client:
  \<^verbatim>\<open>[str(d["key"]) for d in all_deliverables if int(d.get("cost", 0)) <= budget]\<close>.\<close>

fun simple_fit :: "int \<Rightarrow> json list \<Rightarrow> error + string list" where
  "simple_fit budget [] = Inr []"
| "simple_fit budget (d # ds) =
     and_then (py_get d ''cost'' (JInt 0)) (\<lambda>v.
     and_then (py_int v) (\<lambda>c.
       if c \<le> budget
       then and_then (py_getitem d ''key'') (\<lambda>k.
            and_then (simple_fit budget ds) (\<lambda>keys. Inr (py_str k # keys)))
       else simple_fit budget ds))"

text \<open>The catalog text of the prompt reads \<^verbatim>\<open>d["key"]\<close> and \<^verbatim>\<open>d["cost"]\<close> of every entry,
  outside the \<^verbatim>\<open>try\<close> block.\<close>

fun catalog_str_check :: "json list \<Rightarrow> error + unit" where
  "catalog_str_check [] = Inr ()"
| "catalog_str_check (d # ds) =
     and_then (py_getitem d ''key'') (\<lambda>k.
     and_then (py_getitem d ''cost'') (\<lambda>c. catalog_str_check ds))"

definition recommend_deliverables_llm ::
  "env \<Rightarrow> string \<Rightarrow> string \<Rightarrow> int \<Rightarrow> json list \<Rightarrow> error + json" where
  "recommend_deliverables_llm ev project_name brief budget all_deliverables =
     (if \<not> client ev
      then and_then (simple_fit budget all_deliverables) (\<lambda>keys. Inr (JList (map JStr keys)))
      else and_then (catalog_str_check all_deliverables) (\<lambda>u.
             (case llm_deliverables ev of
                Some j \<Rightarrow> Inr j
              | None \<Rightarrow>
                  and_then (fallback_deliverables budget all_deliverables) (\<lambda>keys.
                    Inr (JList (map JStr keys))))))"

section \<open>The agents of \<^verbatim>\<open>guilds/strategy.py\<close> and \<^verbatim>\<open>guilds/command.py\<close>\<close>

text \<open>An \<^verbatim>\<open>AgentInput\<close> carries a task name and two dicts. Of an \<^verbatim>\<open>AgentOutput\<close> the engine reads
  \<^verbatim>\<open>structured_data\<close> only, so \<open>run\<close> returns that dict.\<close>

record agent_input =
  task_description :: string
  context_data :: "(string \<times> json) list"
  parameters :: "(string \<times> json) list"

definition dict_get :: "(string \<times> json) list \<Rightarrow> string \<Rightarrow> json \<Rightarrow> json" where
  "dict_get kvs k d = (case map_of kvs k of None \<Rightarrow> d | Some v \<Rightarrow> v)"

text \<open>\<^verbatim>\<open>BrandStrategist.run\<close>. The task \<^verbatim>\<open>create_roadmap\<close> calls \<^verbatim>\<open>generate_roadmap_llm\<close>, a
  function of two parameters, with four arguments.\<close>

definition brand_strategist_run :: "env \<Rightarrow> agent_input \<Rightarrow> error + (string \<times> json) list" where
  "brand_strategist_run ev input_data =
     (let project_name = py_str (dict_get (context_data input_data) ''project_name'' (JStr ''Unknown''));
          brief = py_str (dict_get (context_data input_data) ''brief'' (JStr []))
      in if task_description input_data = ''generate_directions''
         then Inr [(''directions'', generate_strategic_directions_llm ev project_name brief)]
         else if task_description input_data = ''create_roadmap''
         then Inl TypeError
         else if task_description input_data = ''expand_strategy''
         then and_then
                (expand_strategy_llm ev project_name brief
                   (dict_get (context_data input_data) ''direction'' (JDict [])))
                (\<lambda>strategy. Inr [(''strategy'', strategy)])
         else Inr [])"

text \<open>\<^verbatim>\<open>DirectorAgent.run\<close>.\<close>

definition director_agent_run :: "env \<Rightarrow> agent_input \<Rightarrow> error + (string \<times> json) list" where
  "director_agent_run ev input_data =
     (if task_description input_data = ''recommend_deliverables''
      then (let brief = py_str (dict_get (context_data input_data) ''brief'' (JStr []));
                project_name =
                  py_str (dict_get (context_data input_data) ''project_name'' (JStr ''Unknown Project''))
            in and_then (py_int (dict_get (parameters input_data) ''budget'' (JInt 5000))) (\<lambda>budget.
               and_then (py_iter (dict_get (parameters input_data) ''catalog'' (JList []))) (\<lambda>catalog.
               and_then (recommend_deliverables_llm ev project_name brief budget catalog) (\<lambda>selected_keys.
                 Inr [(''selected_keys'', selected_keys)]))))
      else Inr [])"

section \<open>The rows of \<^verbatim>\<open>shared/db.py\<close>\<close>

text \<open>
  Of every table the columns that the workflow engine reads or writes. The display text of a
  step (\<^verbatim>\<open>body\<close>), the content of a document and the creation times are left out: they are
  text for the reader, and nothing in the engine branches on them. The sub-expressions of the
  \<^verbatim>\<open>body\<close> that can raise are kept, as checks, in the branch that builds it. The columns that hold
  serialised JSON (\<^verbatim>\<open>options_json\<close>, \<^verbatim>\<open>strategic_tensions\<close>, \<^verbatim>\<open>design_principles\<close>) hold the value
  that was serialised. \<^verbatim>\<open>budget_cap\<close> is a finite float, modelled as a rational.
\<close>

record project =
  project_pk :: nat
  name :: string
  project_status :: string
  review_status :: string
  client_brief :: string
  budget_cap :: rat
  executive_summary :: "string option"
  strategic_tensions :: "json option"
  design_principles :: "json option"
  stage :: string

record workflow_step =
  step_pk :: "nat option"
  project_id :: nat
  step_type :: string
  agent :: string
  title :: string
  options_json :: json
  chosen_option :: "string option"
  status :: string
  phase :: string
  sort_order :: int
  resolved_at :: "nat option"

record document =
  doc_project_id :: nat
  doc_name :: string
  doc_category :: string
  doc_type :: string

record global_task =
  task_project_id :: nat
  task_title :: string
  priority :: string
  task_status :: string
  due_date :: nat

record deliverable =
  deliverable_project_id :: nat
  deliverable_title :: string
  deliverable_status :: string
  owner :: string

text \<open>\<^verbatim>\<open>WorkflowResolvePayload\<close>.\<close>

record workflow_resolve_payload =
  step_id :: nat
  action :: string
  payload_chosen_option :: "string option"
  input_text :: "string option"

section \<open>\<^verbatim>\<open>generate_next_steps\<close> of \<^verbatim>\<open>dashboard_api/main.py\<close>\<close>

text \<open>What one call adds to the session: the steps it returns (\<open>created\<close>), the documents,
  tasks and deliverables it adds, and the project row as it leaves it.\<close>

record generated =
  created :: "workflow_step list"
  new_documents :: "document list"
  new_tasks :: "global_task list"
  new_deliverables :: "deliverable list"
  project_after :: project

definition new_step ::
  "project \<Rightarrow> string \<Rightarrow> string \<Rightarrow> string \<Rightarrow> json \<Rightarrow> string \<Rightarrow> string \<Rightarrow> int \<Rightarrow> nat option
     \<Rightarrow> workflow_step" where
  "new_step p ty ag ti opts st ph ord res =
     \<lparr>step_pk = None, project_id = project_pk p, step_type = ty, agent = ag, title = ti,
      options_json = opts, chosen_option = None, status = st, phase = ph, sort_order = ord,
      resolved_at = res\<rparr>"

definition new_document :: "project \<Rightarrow> string \<Rightarrow> string \<Rightarrow> document" where
  "new_document p nm cat =
     \<lparr>doc_project_id = project_pk p, doc_name = nm, doc_category = cat, doc_type = ''html''\<rparr>"

subsection \<open>Resolving the brief\<close>

definition brief_directions :: "env \<Rightarrow> project \<Rightarrow> string \<Rightarrow> json" where
  "brief_directions ev p brief =
     (case brand_strategist_run ev
             \<lparr>task_description = ''generate_directions'',
              context_data = [(''project_name'', JStr (name p)), (''brief'', JStr brief)],
              parameters = []\<rparr> of
        Inr out \<Rightarrow>
          (let directions = dict_get out ''directions'' (JList [])
           in if \<not> truthy directions
              then JList [JDict [(''key'', JStr ''A''), (''title'', JStr ''Strategy Error''),
                                 (''description'', JStr ''Could not generate strategy.'')]]
              else directions)
      | Inl e \<Rightarrow>
          JList [JDict [(''key'', JStr ''A''), (''title'', JStr ''System Error''),
                        (''description'', JStr (''Strategist failed: '' @ exc_text ev e))]])"

definition project_brief_branch ::
  "env \<Rightarrow> workflow_step \<Rightarrow> project \<Rightarrow> workflow_resolve_payload \<Rightarrow> error + generated" where
  "project_brief_branch ev resolved_step p payload =
     (let max_order = sort_order resolved_step;
          p1 = (if or_else (input_text payload) [] \<noteq> []
                then p\<lparr>client_brief := or_else (input_text payload) []\<rparr> else p);
          brief = or_else (input_text payload)
                    (if client_brief p1 \<noteq> [] then client_brief p1 else name p1);
          directions = brief_directions ev p1 brief;
          step = new_step p1 ''decision_gate'' ''Strategist'' ''Strategic Direction'' directions
                   ''active'' ''strategy'' (max_order + 1) None
      in Inr \<lparr>created = [step],
              new_documents = [new_document p1 ''Market Landscape Analysis'' ''Strategy'',
                               new_document p1 ''Competitive Analysis'' ''Strategy''],
              new_tasks = [], new_deliverables = [], project_after = p1\<rparr>)"

subsection \<open>Resolving the strategic direction\<close>

text \<open>\<^verbatim>\<open>next((o for o in options if o["key"] == chosen), options[0])\<close>: the default is computed
  before the search starts, and the search stops at the first match.\<close>

fun find_direction :: "string \<Rightarrow> json list \<Rightarrow> json \<Rightarrow> error + json" where
  "find_direction chosen [] dflt = Inr dflt"
| "find_direction chosen (x # xs) dflt =
     and_then (py_getitem x ''key'') (\<lambda>k.
       if k = JStr chosen then Inr x else find_direction chosen xs dflt)"

definition chosen_direction :: "string \<Rightarrow> json \<Rightarrow> error + json" where
  "chosen_direction chosen options =
     and_then (py_iter options) (\<lambda>xs.
     and_then (py_first options) (\<lambda>dflt. find_direction chosen xs dflt))"

definition expanded_strategy :: "env \<Rightarrow> project \<Rightarrow> string \<Rightarrow> json \<Rightarrow> json" where
  "expanded_strategy ev p brief chosen_dir =
     (case brand_strategist_run ev
             \<lparr>task_description = ''expand_strategy'',
              context_data = [(''project_name'', JStr (name p)), (''brief'', JStr brief),
                              (''direction'', chosen_dir)],
              parameters = []\<rparr> of
        Inr out \<Rightarrow>
          (let strategy = dict_get out ''strategy'' (JDict [])
           in if \<not> truthy strategy
              then JDict [(''positioning'', JStr ''Error''), (''pillars'', JList [JStr ''Error'']),
                          (''tensions'', JList []), (''principles'', JList [])]
              else strategy)
      | Inl e \<Rightarrow>
          JDict [(''positioning'', JStr (''Error: '' @ exc_text ev e)), (''pillars'', JList []),
                 (''tensions'', JList []), (''principles'', JList [])])"

text \<open>The summary line and the body of the review step: what they read, in the order they
  read it. Each read can raise.\<close>

definition strategy_summary :: "json \<Rightarrow> error + string" where
  "strategy_summary strategy =
     and_then (py_get strategy ''positioning'' (JStr [])) (\<lambda>positioning.
     and_then (py_get strategy ''pillars'' (JList [])) (\<lambda>pillars.
     and_then (py_join '', '' pillars) (\<lambda>joined.
       Inr (py_str positioning @ '' | Pillars: '' @ joined))))"

definition strategy_body_check :: "json \<Rightarrow> json \<Rightarrow> error + unit" where
  "strategy_body_check chosen_dir strategy =
     and_then (py_getitem chosen_dir ''title'') (\<lambda>t.
     and_then (py_getitem strategy ''positioning'') (\<lambda>positioning.
     and_then (and_then (py_getitem strategy ''pillars'') py_iter) (\<lambda>pillars.
     and_then (and_then (py_getitem strategy ''tensions'') py_iter) (\<lambda>tensions.
     and_then (and_then (py_getitem strategy ''principles'') py_iter) (\<lambda>principles.
       Inr ())))))"

definition phase2_tasks :: "string list" where
  "phase2_tasks = [''Phase 2: Review Full Strategy'', ''Phase 2: Approve Brand Pillars'']"

definition phase2_task :: "env \<Rightarrow> project \<Rightarrow> string \<Rightarrow> global_task" where
  "phase2_task ev p ttl =
     \<lparr>task_project_id = project_pk p, task_title = ttl, priority = ''High'',
      task_status = ''Todo'', due_date = utcnow ev + 3 * 86400\<rparr>"

definition strategic_direction_branch ::
  "env \<Rightarrow> workflow_step \<Rightarrow> project \<Rightarrow> workflow_resolve_payload \<Rightarrow> error + generated" where
  "strategic_direction_branch ev resolved_step p payload =
     (let max_order = sort_order resolved_step;
          chosen = or_else (payload_chosen_option payload) ''A''
      in and_then (chosen_direction chosen (options_json resolved_step)) (\<lambda>chosen_dir.
         let brief = (if client_brief p \<noteq> [] then client_brief p else name p);
             strategy = expanded_strategy ev p brief chosen_dir
         in and_then (strategy_summary strategy) (\<lambda>summary.
            and_then (strategy_body_check chosen_dir strategy) (\<lambda>u.
            and_then (py_getitem chosen_dir ''title'') (\<lambda>t.
            and_then (py_getitem chosen_dir ''description'') (\<lambda>d.
            and_then (py_getitem strategy ''tensions'') (\<lambda>tensions.
            and_then (py_getitem strategy ''principles'') (\<lambda>principles.
              let p1 = p\<lparr>executive_summary := Some (py_str t @ '': '' @ py_str d),
                         strategic_tensions := Some tensions,
                         design_principles := Some principles\<rparr>;
                  step = new_step p1 ''approval_gate'' ''Strategist'' ''Strategy Review''
                           (JList [JDict [(''key'', JStr ''approve''),
                                          (''title'', JStr ''Approve & proceed to planning'')],
                                   JDict [(''key'', JStr ''revise''),
                                          (''title'', JStr ''Request revisions'')]])
                           ''active'' ''strategy'' (max_order + 1) None
              in Inr \<lparr>created = [step],
                      new_documents = [new_document p1 ''Brand Positioning Report'' ''Strategy'',
                                       new_document p1 ''Target Audience Profile'' ''Strategy''],
                      new_tasks = map (phase2_task ev p1) phase2_tasks
                                  @ map (phase2_task ev p1) phase2_tasks,
                      new_deliverables = [], project_after = p1\<rparr>))))))))"

subsection \<open>Resolving the strategy review\<close>

text \<open>An entry of the deliverable catalog. The loop over the catalog stores the flag
  \<^verbatim>\<open>selected\<close> in every entry; before the loop the entry has none.\<close>

record catalog_item =
  key :: string
  item_title :: string
  cost :: int
  item_phase :: string
  time_est :: string
  justification :: string
  selected :: "bool option"

definition catalog_entry :: "string \<Rightarrow> string \<Rightarrow> int \<Rightarrow> string \<Rightarrow> string \<Rightarrow> string \<Rightarrow> catalog_item" where
  "catalog_entry k t c ph te j =
     \<lparr>key = k, item_title = t, cost = c, item_phase = ph, time_est = te, justification = j,
      selected = None\<rparr>"

definition catalog :: "catalog_item list" where
  "catalog =
     [catalog_entry ''brand_strategy'' ''Brand Strategy Document'' 800 ''Foundation'' ''1 week''
        ''Defines core DNA and market positioning.'',
      catalog_entry ''visual_brief'' ''Visual Identity Brief'' 600 ''Foundation'' ''3 days''
        ''Translates strategy into visual direction for designers.'',
      catalog_entry ''competitor_audit'' ''Competitor Audit Report'' 500 ''Foundation'' ''4 days''
        ''Identifies whitespace opportunities in the market.'',
      catalog_entry ''logo_system'' ''Logo & Identity System'' 1500 ''Design'' ''2 weeks''
        ''Core asset for brand recognition across all touchpoints.'',
      catalog_entry ''brand_guidelines'' ''Brand Guidelines'' 1000 ''Design'' ''1 week''
        ''Ensures consistency in future brand application.'',
      catalog_entry ''visual_templates'' ''Key Visual Templates'' 700 ''Design'' ''1 week''
        ''Ready-to-use assets for social and presentations.'',
      catalog_entry ''website'' ''Website Design & Development'' 2500 ''Production'' ''3 weeks''
        ''Primary digital storefront and conversion engine.'',
      catalog_entry ''social_kit'' ''Social Media Kit'' 800 ''Production'' ''1 week''
        ''Launch content to build initial traction.'',
      catalog_entry ''launch_collateral'' ''Launch Collateral'' 600 ''Production'' ''1 week''
        ''Physical/digital assets for launch event/campaign.'']"

text \<open>The entry as the dict it is in the source, which is also what \<^verbatim>\<open>json.dumps\<close> stores.\<close>

definition item_json :: "catalog_item \<Rightarrow> json" where
  "item_json item =
     JDict ([(''key'', JStr (key item)), (''title'', JStr (item_title item)),
             (''cost'', JInt (cost item)), (''phase'', JStr (item_phase item)),
             (''time_est'', JStr (time_est item)),
             (''justification'', JStr (justification item))]
            @ (case selected item of None \<Rightarrow> [] | Some b \<Rightarrow> [(''selected'', JBool b)]))"

text \<open>\<^verbatim>\<open>int(x)\<close> on a finite float: the fraction is cut off, towards zero.\<close>

definition int_of_float :: "rat \<Rightarrow> int" where
  "int_of_float x = (if 0 \<le> x then \<lfloor>x\<rfloor> else \<lceil>x\<rceil>)"

text \<open>The call of the director, with its \<^verbatim>\<open>except Exception\<close>.\<close>

definition recommended_keys :: "env \<Rightarrow> project \<Rightarrow> int \<Rightarrow> catalog_item list \<Rightarrow> json" where
  "recommended_keys ev p budget cat =
     (case director_agent_run ev
             \<lparr>task_description = ''recommend_deliverables'',
              context_data = [(''project_name'', JStr (name p)), (''brief'', JStr (client_brief p))],
              parameters = [(''budget'', JInt budget), (''catalog'', JList (map item_json cat))]\<rparr> of
        Inr out \<Rightarrow> dict_get out ''selected_keys'' (JList [])
      | Inl e \<Rightarrow> JList [])"

text \<open>The loop over the catalog. It returns the catalog with the flags set, the titles of
  the selected entries and the running total.\<close>

fun select_deliverables ::
  "int \<Rightarrow> json \<Rightarrow> catalog_item list \<Rightarrow> int \<Rightarrow> error + (catalog_item list \<times> string list \<times> int)" where
  "select_deliverables budget rk [] running_total = Inr ([], [], running_total)"
| "select_deliverables budget rk (item # items) running_total =
     and_then (py_in (key item) rk) (\<lambda>is_recommended.
       if budget \<le> 0 \<or> (is_recommended \<and> running_total + cost item \<le> budget)
       then and_then (select_deliverables budget rk items (running_total + cost item)) (\<lambda>r.
              Inr (item\<lparr>selected := Some True\<rparr> # fst r, item_title item # fst (snd r), snd (snd r)))
       else and_then (select_deliverables budget rk items running_total) (\<lambda>r.
              Inr (item\<lparr>selected := Some False\<rparr> # fst r, fst (snd r), snd (snd r))))"

definition approve_branch ::
  "env \<Rightarrow> workflow_step \<Rightarrow> project \<Rightarrow> workflow_resolve_payload \<Rightarrow> error + generated" where
  "approve_branch ev resolved_step p payload =
     (let max_order = sort_order resolved_step;
          milestone = new_step p ''milestone'' ''System'' ''Strategy Phase Complete'' (JList [])
                        ''resolved'' ''strategy'' (max_order + 1) (Some (utcnow ev));
          budget = int_of_float (budget_cap p)
      in and_then (select_deliverables budget (recommended_keys ev p budget catalog) catalog 0) (\<lambda>r.
         let step = new_step p ''decision_gate'' ''Director'' ''Deliverable Selection''
                      (JList (map item_json (fst r))) ''active'' ''design'' (max_order + 2) None;
             p1 = (if payload_chosen_option payload = Some ''revise''
                   then p\<lparr>review_status := ''REJECTED''\<rparr>
                   else p\<lparr>review_status := ''PENDING''\<rparr>)
         in Inr \<lparr>created = [milestone, step],
                 new_documents = [new_document p ''Brand Strategy Document'' ''Strategy'',
                                  new_document p ''Visual Direction Brief'' ''Design''],
                 new_tasks = [], new_deliverables = [], project_after = p1\<rparr>))"

definition revise_branch ::
  "env \<Rightarrow> workflow_step \<Rightarrow> project \<Rightarrow> workflow_resolve_payload \<Rightarrow> error + generated" where
  "revise_branch ev resolved_step p payload =
     (let max_order = sort_order resolved_step;
          step = new_step p ''input_needed'' ''Strategist'' ''Strategy Revisions'' (JList [])
                   ''active'' ''strategy'' (max_order + 1) None
      in Inr \<lparr>created = [step], new_documents = [], new_tasks = [], new_deliverables = [],
              project_after = p\<lparr>review_status := ''REJECTED''\<rparr>\<rparr>)"

definition strategy_review_branch ::
  "env \<Rightarrow> workflow_step \<Rightarrow> project \<Rightarrow> workflow_resolve_payload \<Rightarrow> error + generated" where
  "strategy_review_branch ev resolved_step p payload =
     (if action payload = ''approve'' \<or> payload_chosen_option payload = Some ''approve''
      then approve_branch ev resolved_step p payload
      else revise_branch ev resolved_step p payload)"

subsection \<open>Resolving the deliverable selection\<close>

definition comma_separated :: "string \<Rightarrow> string list" where
  "comma_separated s = filter (\<lambda>k. k \<noteq> []) (map strip (split_on CHR '','' s))"

text \<open>The chosen keys: a JSON array when the text starts with a bracket and parses,
  comma-separated keys otherwise.\<close>

definition parse_chosen_keys :: "env \<Rightarrow> string \<Rightarrow> string list" where
  "parse_chosen_keys ev chosen =
     (if is_prefix ''['' chosen
      then (case json_loads ev chosen of
              Some (JList ks) \<Rightarrow> map py_str ks
            | Some other \<Rightarrow> comma_separated chosen
            | None \<Rightarrow> comma_separated chosen)
      else comma_separated chosen)"

definition agent_deliverable :: "project \<Rightarrow> string \<Rightarrow> deliverable" where
  "agent_deliverable p t =
     \<lparr>deliverable_project_id = project_pk p, deliverable_title = t,
      deliverable_status = ''Pending'', owner = ''Agent''\<rparr>"

definition founder_deliverable :: "project \<Rightarrow> string \<Rightarrow> deliverable" where
  "founder_deliverable p t =
     \<lparr>deliverable_project_id = project_pk p, deliverable_title = t,
      deliverable_status = ''Pending'', owner = ''Founder''\<rparr>"

text \<open>The loop over the stored catalog: the deliverables it adds and the total cost.\<close>

fun chosen_deliverables ::
  "project \<Rightarrow> string list \<Rightarrow> json list \<Rightarrow> error + (deliverable list \<times> int)" where
  "chosen_deliverables p chosen_keys [] = Inr ([], 0)"
| "chosen_deliverables p chosen_keys (item # items) =
     and_then (py_get item ''key'' (JStr [])) (\<lambda>k.
       if py_str k \<in> set chosen_keys
       then and_then (py_getitem item ''title'') (\<lambda>t.
            and_then (and_then (py_get item ''cost'' (JInt 0)) py_int) (\<lambda>item_cost.
            and_then (chosen_deliverables p chosen_keys items) (\<lambda>r.
              Inr (agent_deliverable p (py_str t) # fst r, item_cost + snd r))))
       else chosen_deliverables p chosen_keys items)"

definition deliverable_selection_branch ::
  "env \<Rightarrow> workflow_step \<Rightarrow> project \<Rightarrow> workflow_resolve_payload \<Rightarrow> error + generated" where
  "deliverable_selection_branch ev resolved_step p payload =
     (let max_order = sort_order resolved_step;
          p1 = p\<lparr>review_status := ''APPROVED''\<rparr>;
          chosen = or_else (payload_chosen_option payload) [];
          custom_input = or_else (input_text payload) [];
          chosen_keys = parse_chosen_keys ev chosen
      in and_then (py_iter (options_json resolved_step)) (\<lambda>cat.
         and_then (chosen_deliverables p1 chosen_keys cat) (\<lambda>r.
           let custom = map (founder_deliverable p1) (comma_separated custom_input);
               p2 = p1\<lparr>stage := ''Design'', project_status := ''Design''\<rparr>;
               milestone = new_step p2 ''milestone'' ''System'' ''Deliverables Confirmed'' (JList [])
                             ''resolved'' ''design'' (max_order + 1) (Some (utcnow ev));
               step = new_step p2 ''agent_output'' ''CFO'' ''Budget Allocation'' (JList [])
                        ''active'' ''design'' (max_order + 2) None
           in Inr \<lparr>created = [milestone, step], new_documents = [], new_tasks = [],
                   new_deliverables = fst r @ custom, project_after = p2\<rparr>)))"

subsection \<open>The dispatch\<close>

definition generate_next_steps ::
  "env \<Rightarrow> workflow_step \<Rightarrow> project \<Rightarrow> workflow_resolve_payload \<Rightarrow> error + generated" where
  "generate_next_steps ev resolved_step p payload =
     (if step_type resolved_step = ''input_needed'' \<and> title resolved_step = ''Project Brief''
      then project_brief_branch ev resolved_step p payload
      else if step_type resolved_step = ''decision_gate''
              \<and> title resolved_step = ''Strategic Direction''
      then strategic_direction_branch ev resolved_step p payload
      else if step_type resolved_step = ''approval_gate''
              \<and> title resolved_step = ''Strategy Review''
      then strategy_review_branch ev resolved_step p payload
      else if step_type resolved_step = ''decision_gate''
              \<and> title resolved_step = ''Deliverable Selection''
      then deliverable_selection_branch ev resolved_step p payload
      else Inr \<lparr>created = [], new_documents = [], new_tasks = [], new_deliverables = [],
               project_after = p\<rparr>)"

section \<open>The store and the two endpoints\<close>

text \<open>The committed content of the database. A commit appends the rows that the session
  added and writes back the rows it changed; a request that raises leaves the database as
  its last commit left it. A new step gets the next free primary key.\<close>

record db =
  projects :: "project list"
  steps :: "workflow_step list"
  documents :: "document list"
  tasks :: "global_task list"
  deliverables :: "deliverable list"

definition get_project :: "db \<Rightarrow> nat \<Rightarrow> project option" where
  "get_project d pid = find (\<lambda>p. project_pk p = pid) (projects d)"

definition get_step :: "db \<Rightarrow> nat \<Rightarrow> workflow_step option" where
  "get_step d sid = find (\<lambda>s. step_pk s = Some sid) (steps d)"

definition next_pk :: "workflow_step list \<Rightarrow> nat" where
  "next_pk ss = Suc (foldr (\<lambda>s m. case step_pk s of None \<Rightarrow> m | Some i \<Rightarrow> max i m) ss 0)"

fun insert_steps :: "workflow_step list \<Rightarrow> workflow_step list \<Rightarrow> workflow_step list" where
  "insert_steps ss [] = ss"
| "insert_steps ss (s # new) = insert_steps (ss @ [s\<lparr>step_pk := Some (next_pk ss)\<rparr>]) new"

definition update_step :: "workflow_step \<Rightarrow> db \<Rightarrow> db" where
  "update_step s d = d\<lparr>steps := map (\<lambda>t. if step_pk t = step_pk s then s else t) (steps d)\<rparr>"

definition update_project :: "project \<Rightarrow> db \<Rightarrow> db" where
  "update_project p d =
     d\<lparr>projects := map (\<lambda>q. if project_pk q = project_pk p then p else q) (projects d)\<rparr>"

definition commit_generated :: "generated \<Rightarrow> db \<Rightarrow> db" where
  "commit_generated g d =
     (update_project (project_after g) d)
       \<lparr>steps := insert_steps (steps d) (created g),
        documents := documents d @ new_documents g,
        tasks := tasks d @ new_tasks g,
        deliverables := deliverables d @ new_deliverables g\<rparr>"

record resolve_response =
  response_status :: string
  response_step_id :: "nat option"
  next_steps_created :: nat

text \<open>\<^verbatim>\<open>resolve_workflow_step\<close>: the database after the request, and the response or the
  exception. The step is committed as resolved before the next steps are generated.\<close>

definition resolve_workflow_step ::
  "env \<Rightarrow> db \<Rightarrow> nat \<Rightarrow> workflow_resolve_payload \<Rightarrow> db \<times> (error + resolve_response)" where
  "resolve_workflow_step ev d pid payload =
     (case get_step d (step_id payload) of
        None \<Rightarrow> (d, Inl NotFound)
      | Some step0 \<Rightarrow>
          if project_id step0 \<noteq> pid then (d, Inl NotFound)
          else
            (let step = step0\<lparr>status := ''resolved'', resolved_at := Some (utcnow ev),
                              chosen_option :=
                                Some (or_else (payload_chosen_option payload)
                                        (or_else (input_text payload) (action payload)))\<rparr>;
                 d1 = update_step step d
             in case get_project d1 pid of
                  None \<Rightarrow> (d1, Inl NotFound)
                | Some p \<Rightarrow>
                    (case generate_next_steps ev step p payload of
                       Inl e \<Rightarrow> (d1, Inl e)
                     | Inr next_steps \<Rightarrow>
                         (commit_generated next_steps d1,
                          Inr \<lparr>response_status = ''resolved'', response_step_id = step_pk step,
                               next_steps_created = length (created next_steps)\<rparr>))))"

text \<open>\<^verbatim>\<open>seed_workflow\<close>: the database after the request, and the status with the key of the
  new step, or the exception.\<close>

definition seed_workflow :: "db \<Rightarrow> nat \<Rightarrow> db \<times> (error + string \<times> nat option)" where
  "seed_workflow d pid =
     (case get_project d pid of
        None \<Rightarrow> (d, Inl NotFound)
      | Some p \<Rightarrow>
          (case find (\<lambda>s. project_id s = pid) (steps d) of
             Some existing \<Rightarrow> (d, Inr (''exists'', None))
           | None \<Rightarrow>
               (let step = \<lparr>step_pk = None, project_id = pid, step_type = ''input_needed'',
                            agent = ''Strategist'', title = ''Project Brief'',
                            options_json = JList [], chosen_option = None, status = ''active'',
                            phase = ''strategy'', sort_order = 0, resolved_at = None\<rparr>
                in (d\<lparr>steps := insert_steps (steps d) [step]\<rparr>,
                    Inr (''seeded'', Some (next_pk (steps d)))))))"

section \<open>The selection policies in the words of the specification\<close>

text \<open>First fit in catalog order: an entry is taken when its cost is at most the remaining
  budget, and the remaining budget is decremented by what is taken.\<close>

fun first_fit :: "int \<Rightarrow> catalog_item list \<Rightarrow> catalog_item list" where
  "first_fit remaining [] = []"
| "first_fit remaining (item # items) =
     (if cost item \<le> remaining then item # first_fit (remaining - cost item) items
      else first_fit remaining items)"

definition total_cost :: "catalog_item list \<Rightarrow> int" where
  "total_cost items = sum_list (map cost items)"



text \<open>The same pass, as the flags it leaves on the catalog.\<close>

fun first_fit_marked :: "int \<Rightarrow> catalog_item list \<Rightarrow> catalog_item list" where
  "first_fit_marked remaining [] = []"
| "first_fit_marked remaining (item # items) =
     (if cost item \<le> remaining
      then item\<lparr>selected := Some True\<rparr> # first_fit_marked (remaining - cost item) items
      else item\<lparr>selected := Some False\<rparr> # first_fit_marked remaining items)"

section \<open>Concrete inputs\<close>

text \<open>An installation without an API key, and one whose calls to the language model all
  fail.\<close>

definition offline_env :: env where
  "offline_env =
     \<lparr>client = False, llm_directions = None, llm_strategy = None, llm_deliverables = None,
      utcnow = 0, json_loads = (\<lambda>s. None), exc_text = (\<lambda>e. [])\<rparr>"

definition failing_llm_env :: env where
  "failing_llm_env = offline_env\<lparr>client := True\<rparr>"

text \<open>A project as the onboarding endpoint creates it, with a budget of 10,000, and the same
  project with a budget of 3,000.\<close>

definition demo_project :: project where
  "demo_project =
     \<lparr>project_pk = 1, name = ''Kafe'', project_status = ''Strategy'',
      review_status = ''PENDING'', client_brief = [], budget_cap = 10000,
      executive_summary = Some [], strategic_tensions = Some (JList []),
      design_principles = Some (JList []), stage = ''Strategy''\<rparr>"

definition tight_project :: project where
  "tight_project = demo_project\<lparr>client_brief := ''A sustainable coffee brand'', budget_cap := 3000\<rparr>"

text \<open>The review step as the engine creates it, once resolved, and the payload that approves
  it.\<close>

definition review_step :: workflow_step where
  "review_step =
     \<lparr>step_pk = Some 3, project_id = 1, step_type = ''approval_gate'', agent = ''Strategist'',
      title = ''Strategy Review'',
      options_json =
        JList [JDict [(''key'', JStr ''approve''), (''title'', JStr ''Approve & proceed to planning'')],
               JDict [(''key'', JStr ''revise''), (''title'', JStr ''Request revisions'')]],
      chosen_option = Some ''approve'', status = ''resolved'', phase = ''strategy'',
      sort_order = 2, resolved_at = Some 0\<rparr>"

definition approve_payload :: workflow_resolve_payload where
  "approve_payload =
     \<lparr>step_id = 3, action = ''approve'', payload_chosen_option = None, input_text = None\<rparr>"

text \<open>A payload that does not approve, and one whose action is not \<^verbatim>\<open>approve\<close> although its
  chosen option is.\<close>

definition reject_payload :: workflow_resolve_payload where
  "reject_payload =
     \<lparr>step_id = 3, action = ''reject'', payload_chosen_option = None, input_text = None\<rparr>"

definition choose_approve_payload :: workflow_resolve_payload where
  "choose_approve_payload =
     \<lparr>step_id = 3, action = ''choose'', payload_chosen_option = Some ''approve'',
      input_text = None\<rparr>"

text \<open>What a caller sees of a call of \<^verbatim>\<open>generate_next_steps\<close>: the type and title of the steps
  it created and the review status it left, or the exception.\<close>

definition outcome :: "error + generated \<Rightarrow> error + (string \<times> string) list \<times> string" where
  "outcome r =
     (case r of
        Inl e \<Rightarrow> Inl e
      | Inr g \<Rightarrow> Inr (map (\<lambda>s. (step_type s, title s)) (created g), review_status (project_after g)))"

text \<open>The pairs of step type and title for which the specification names a transition.\<close>

definition known_transition :: "string \<Rightarrow> string \<Rightarrow> bool" where
  "known_transition ty ti \<longleftrightarrow>
     (ty = ''input_needed'' \<and> ti = ''Project Brief'')
     \<or> (ty = ''decision_gate'' \<and> ti = ''Strategic Direction'')
     \<or> (ty = ''approval_gate'' \<and> ti = ''Strategy Review'')
     \<or> (ty = ''decision_gate'' \<and> ti = ''Deliverable Selection'')"

text \<open>A database in which the review was answered with a request for revisions, and the
  payload that answers the step ``Strategy Revisions''.\<close>

definition revisions_step :: workflow_step where
  "revisions_step =
     \<lparr>step_pk = Some 4, project_id = 1, step_type = ''input_needed'', agent = ''Strategist'',
      title = ''Strategy Revisions'', options_json = JList [], chosen_option = None,
      status = ''active'', phase = ''strategy'', sort_order = 3, resolved_at = None\<rparr>"

definition revisions_db :: db where
  "revisions_db =
     \<lparr>projects = [tight_project], steps = [review_step, revisions_step], documents = [],
      tasks = [], deliverables = []\<rparr>"

definition revisions_payload :: workflow_resolve_payload where
  "revisions_payload =
     \<lparr>step_id = 4, action = ''input'', payload_chosen_option = None,
      input_text = Some ''More warmth''\<rparr>"

text \<open>A step ``Strategic Direction'' with the three fallback directions, and the payload
  that picks the second.\<close>

definition direction_step :: workflow_step where
  "direction_step =
     \<lparr>step_pk = Some 2, project_id = 1, step_type = ''decision_gate'', agent = ''Strategist'',
      title = ''Strategic Direction'', options_json = fallback_directions ''Kafe'',
      chosen_option = None, status = ''active'', phase = ''strategy'', sort_order = 1,
      resolved_at = None\<rparr>"

definition choose_b_payload :: workflow_resolve_payload where
  "choose_b_payload =
     \<lparr>step_id = 2, action = ''choose'', payload_chosen_option = Some ''B'', input_text = None\<rparr>"

definition direction_db :: db where
  "direction_db =
     \<lparr>projects = [tight_project], steps = [direction_step], documents = [], tasks = [],
      deliverables = []\<rparr>"

text \<open>The first step of a workflow as \<^verbatim>\<open>seed_workflow\<close> stores it, the payload that submits a
  brief, and an installation whose language model answers with an empty list of
  directions.\<close>

definition brief_step :: workflow_step where
  "brief_step =
     \<lparr>step_pk = Some 1, project_id = 1, step_type = ''input_needed'', agent = ''Strategist'',
      title = ''Project Brief'', options_json = JList [], chosen_option = None,
      status = ''active'', phase = ''strategy'', sort_order = 0, resolved_at = None\<rparr>"

definition brief_payload :: workflow_resolve_payload where
  "brief_payload =
     \<lparr>step_id = 1, action = ''input'', payload_chosen_option = None,
      input_text = Some ''A sustainable coffee brand''\<rparr>"

definition empty_llm_env :: env where
  "empty_llm_env = offline_env\<lparr>client := True, llm_directions := Some (JList [])\<rparr>"

text \<open>The options of the steps that a call of \<^verbatim>\<open>generate_next_steps\<close> created, or the
  exception.\<close>

definition created_options :: "error + generated \<Rightarrow> error + json list" where
  "created_options r = (case r of Inl e \<Rightarrow> Inl e | Inr g \<Rightarrow> Inr (map options_json (created g)))"



text \<open>A database with one project and no workflow; a database in which the step
  ``Strategic Direction'' was stored with an empty list of options, as \<^verbatim>\<open>run_strategy\<close> stores
  it when the language model answers with an empty list.\<close>

definition fresh_db :: db where
  "fresh_db =
     \<lparr>projects = [demo_project], steps = [], documents = [], tasks = [], deliverables = []\<rparr>"

definition empty_direction_step :: workflow_step where
  "empty_direction_step = direction_step\<lparr>options_json := JList []\<rparr>"

definition stalled_db :: db where
  "stalled_db =
     \<lparr>projects = [tight_project], steps = [empty_direction_step], documents = [], tasks = [],
      deliverables = []\<rparr>"

text \<open>The step as \<^verbatim>\<open>resolve_workflow_step\<close> marks it before its first commit.\<close>

definition mark_resolved :: "env \<Rightarrow> workflow_resolve_payload \<Rightarrow> workflow_step \<Rightarrow> workflow_step" where
  "mark_resolved ev payload s =
     s\<lparr>status := ''resolved'', resolved_at := Some (utcnow ev),
       chosen_option := Some (or_else (payload_chosen_option payload)
                               (or_else (input_text payload) (action payload)))\<rparr>"

section \<open>Properties of the selection policies\<close>

lemma item_json_get [simp]:
  "py_get (item_json i) ''cost'' d = Inr (JInt (cost i))"
  "py_get (item_json i) ''key'' d = Inr (JStr (key i))"
  "py_getitem (item_json i) ''cost'' = Inr (JInt (cost i))"
  "py_getitem (item_json i) ''key'' = Inr (JStr (key i))"
  "py_getitem (item_json i) ''title'' = Inr (JStr (item_title i))"
  by (simp_all add: item_json_def)

lemma fallback_deliverables_first_fit:
  "fallback_deliverables r (map item_json cat) = Inr (map key (first_fit r cat))"
  by (induction cat arbitrary: r)
     (simp_all add: and_then_def cost_or_zero_def safe_sub_def)

lemma simple_fit_filter:
  "simple_fit b (map item_json cat) = Inr (map key (filter (\<lambda>i. cost i \<le> b) cat))"
  by (induction cat) (simp_all add: and_then_def)

lemma catalog_str_check_ok: "catalog_str_check (map item_json cat) = Inr ()"
  by (induction cat) (simp_all add: and_then_def)

lemma first_fit_total: "0 \<le> r \<Longrightarrow> total_cost (first_fit r cat) \<le> r"
proof (induction cat arbitrary: r)
  case Nil
  then show ?case by (simp add: total_cost_def)
next
  case (Cons item items)
  show ?case
  proof (cases "cost item \<le> r")
    case True
    then have "total_cost (first_fit (r - cost item) items) \<le> r - cost item"
      using Cons.IH [of "r - cost item"] by simp
    with True show ?thesis by (simp add: total_cost_def)
  next
    case False
    with Cons show ?thesis by simp
  qed
qed

lemma first_fit_subset: "set (first_fit r cat) \<subseteq> set cat"
  by (induction cat arbitrary: r) auto

lemma first_fit_affordable:
  "\<forall>i\<in>set cat. 0 \<le> cost i \<Longrightarrow> i \<in> set (first_fit r cat) \<Longrightarrow> cost i \<le> r"
proof (induction cat arbitrary: r)
  case Nil
  then show ?case by simp
next
  case (Cons item items)
  show ?case
  proof (cases "cost item \<le> r")
    case True
    with Cons.prems have "i = item \<or> i \<in> set (first_fit (r - cost item) items)" by auto
    then show ?thesis
    proof
      assume "i = item" with True show ?thesis by simp
    next
      assume "i \<in> set (first_fit (r - cost item) items)"
      with Cons have "cost i \<le> r - cost item" by simp
      moreover have "0 \<le> cost item" using Cons.prems by simp
      ultimately show ?thesis by simp
    qed
  next
    case False
    with Cons show ?thesis by simp
  qed
qed

text \<open>The loop of the review step, given a list of keys that holds the key of every entry
  that first fit takes: it selects what first fit takes.\<close>

lemma select_deliverables_first_fit:
  "0 < b \<Longrightarrow> key ` set (first_fit (b - t) cat) \<subseteq> set ks \<Longrightarrow>
   select_deliverables b (JList (map JStr ks)) cat t
     = Inr (first_fit_marked (b - t) cat, map item_title (first_fit (b - t) cat),
            t + total_cost (first_fit (b - t) cat))"
proof (induction cat arbitrary: t)
  case Nil
  then show ?case by (simp add: total_cost_def)
next
  case (Cons item items)
  show ?case
  proof (cases "cost item \<le> b - t")
    case True
    then have fit: "t + cost item \<le> b" by simp
    from True Cons.prems have rec: "key item \<in> set ks" by auto
    from True Cons.prems
    have "key ` set (first_fit (b - (t + cost item)) items) \<subseteq> set ks"
      by (auto simp: algebra_simps)
    from Cons.IH [OF Cons.prems(1) this] True fit rec Cons.prems(1)
    show ?thesis
      by (simp add: and_then_def total_cost_def algebra_simps image_iff)
  next
    case False
    then have nofit: "\<not> t + cost item \<le> b" by simp
    from False Cons.prems have "key ` set (first_fit (b - t) items) \<subseteq> set ks" by simp
    from Cons.IH [OF Cons.prems(1) this] False nofit Cons.prems(1)
    show ?thesis
      by (simp add: and_then_def total_cost_def)
  qed
qed

lemma recommended_keys_offline:
  "\<not> client ev \<Longrightarrow>
   recommended_keys ev p b cat = JList (map JStr (map key (filter (\<lambda>i. cost i \<le> b) cat)))"
  by (simp add: recommended_keys_def director_agent_run_def recommend_deliverables_llm_def
        simple_fit_filter and_then_def dict_get_def)

lemma recommended_keys_failing:
  "client ev \<Longrightarrow> llm_deliverables ev = None \<Longrightarrow>
   recommended_keys ev p b cat = JList (map JStr (map key (first_fit b cat)))"
  by (simp add: recommended_keys_def director_agent_run_def recommend_deliverables_llm_def
        fallback_deliverables_first_fit catalog_str_check_ok and_then_def dict_get_def)

lemma select_after_simple_fit:
  assumes "0 < b" and "\<forall>i\<in>set cat. 0 \<le> cost i"
  shows "select_deliverables b (JList (map JStr (map key (filter (\<lambda>i. cost i \<le> b) cat)))) cat 0
     = Inr (first_fit_marked b cat, map item_title (first_fit b cat), total_cost (first_fit b cat))"
proof -
  have "key ` set (first_fit (b - 0) cat) \<subseteq> set (map key (filter (\<lambda>i. cost i \<le> b) cat))"
    using first_fit_affordable [OF assms(2)] first_fit_subset [of b cat] by auto
  from select_deliverables_first_fit [OF assms(1) this] show ?thesis by simp
qed

lemma select_after_first_fit:
  assumes "0 < b"
  shows "select_deliverables b (JList (map JStr (map key (first_fit b cat)))) cat 0
     = Inr (first_fit_marked b cat, map item_title (first_fit b cat), total_cost (first_fit b cat))"
proof -
  have "key ` set (first_fit (b - 0) cat) \<subseteq> set (map key (first_fit b cat))" by simp
  from select_deliverables_first_fit [OF assms(1) this] show ?thesis by simp
qed

lemma catalog_costs: "map cost catalog = [800, 600, 500, 1500, 1000, 700, 2500, 800, 600]"
  by (simp add: catalog_def catalog_entry_def)

lemma catalog_total: "total_cost catalog = 9000"
  by (simp add: total_cost_def catalog_costs)

lemma catalog_nonneg: "\<forall>i\<in>set catalog. 0 \<le> cost i"
  by (simp add: catalog_def catalog_entry_def)

lemma first_fit_3000:
  "map key (first_fit 3000 catalog)
     = [''brand_strategy'', ''visual_brief'', ''competitor_audit'', ''brand_guidelines'']"
  "total_cost (first_fit 3000 catalog) = 2900"
  by (simp_all add: catalog_def catalog_entry_def total_cost_def)

lemma simple_fit_3000: "filter (\<lambda>i. cost i \<le> 3000) catalog = catalog"
  by (simp add: catalog_def catalog_entry_def)

text \<open>
  \<^bold>\<open>Claim C3\<close>, as amended. When the call to the language model fails,
  \<^verbatim>\<open>recommend_deliverables_llm\<close> returns what \<^verbatim>\<open>_fallback_deliverables\<close> returns: the keys of a
  first-fit pass in catalog order, which takes every entry whose cost is at most the remaining
  budget and decrements the remaining budget; for a budget \<open>b \<ge> 0\<close> the entries it takes cost
  at most \<open>b\<close> in total. Without a client, \<^verbatim>\<open>recommend_deliverables_llm\<close> returns instead the key
  of every entry whose own cost is at most \<open>b\<close>, and nothing is decremented. For \<open>b > 0\<close> and a
  catalog without negative costs, the loop of the review step selects from either list
  exactly the entries that first fit takes.
\<close>

theorem fallback_selection_policies:
  "fallback_deliverables b (map item_json cat) = Inr (map key (first_fit b cat))
   \<and> (0 \<le> b \<longrightarrow> total_cost (first_fit b cat) \<le> b)
   \<and> (client ev \<and> llm_deliverables ev = None \<longrightarrow>
        recommend_deliverables_llm ev pn br b (map item_json cat)
          = Inr (JList (map JStr (map key (first_fit b cat)))))
   \<and> (\<not> client ev \<longrightarrow>
        recommend_deliverables_llm ev pn br b (map item_json cat)
          = Inr (JList (map JStr (map key (filter (\<lambda>i. cost i \<le> b) cat)))))
   \<and> ((\<not> client ev \<or> llm_deliverables ev = None) \<and> 0 < b \<and> (\<forall>i\<in>set cat. 0 \<le> cost i) \<longrightarrow>
        select_deliverables b (recommended_keys ev p b cat) cat 0
          = Inr (first_fit_marked b cat, map item_title (first_fit b cat),
                 total_cost (first_fit b cat)))"
proof (intro conjI impI)
  show "fallback_deliverables b (map item_json cat) = Inr (map key (first_fit b cat))"
    by (rule fallback_deliverables_first_fit)
  show "total_cost (first_fit b cat) \<le> b" if "0 \<le> b"
    using that by (rule first_fit_total)
  show "recommend_deliverables_llm ev pn br b (map item_json cat)
          = Inr (JList (map JStr (map key (first_fit b cat))))"
    if "client ev \<and> llm_deliverables ev = None"
    using that
    by (simp add: recommend_deliverables_llm_def fallback_deliverables_first_fit
          catalog_str_check_ok and_then_def)
  show "recommend_deliverables_llm ev pn br b (map item_json cat)
          = Inr (JList (map JStr (map key (filter (\<lambda>i. cost i \<le> b) cat))))"
    if "\<not> client ev"
    using that by (simp add: recommend_deliverables_llm_def simple_fit_filter and_then_def)
  show "select_deliverables b (recommended_keys ev p b cat) cat 0
          = Inr (first_fit_marked b cat, map item_title (first_fit b cat),
                 total_cost (first_fit b cat))"
    if h: "(\<not> client ev \<or> llm_deliverables ev = None) \<and> 0 < b \<and> (\<forall>i\<in>set cat. 0 \<le> cost i)"
  proof (cases "client ev")
    case True
    with h select_after_first_fit [of b cat] show ?thesis
      by (simp add: recommended_keys_failing)
  next
    case False
    with h select_after_simple_fit [of b cat] show ?thesis
      by (simp add: recommended_keys_offline)
  qed
qed

theorem fallback_selection_policies_witness:
  "fallback_deliverables 3000 (map item_json catalog)
     = Inr [''brand_strategy'', ''visual_brief'', ''competitor_audit'', ''brand_guidelines'']
   \<and> total_cost (first_fit 3000 catalog) \<le> 3000
   \<and> recommend_deliverables_llm failing_llm_env ''Kafe'' [] 3000 (map item_json catalog)
       = Inr (JList [JStr ''brand_strategy'', JStr ''visual_brief'', JStr ''competitor_audit'',
                     JStr ''brand_guidelines''])
   \<and> recommend_deliverables_llm offline_env ''Kafe'' [] 3000 (map item_json catalog)
       = Inr (JList (map JStr (map key catalog)))
   \<and> select_deliverables 3000 (recommended_keys offline_env tight_project 3000 catalog) catalog 0
       = Inr (first_fit_marked 3000 catalog, map item_title (first_fit 3000 catalog), 2900)
   \<and> select_deliverables 3000 (recommended_keys failing_llm_env tight_project 3000 catalog) catalog 0
       = Inr (first_fit_marked 3000 catalog, map item_title (first_fit 3000 catalog), 2900)"
proof -
  have off: "\<not> client offline_env" by (simp add: offline_env_def)
  have fail: "client failing_llm_env \<and> llm_deliverables failing_llm_env = None"
    by (simp add: failing_llm_env_def offline_env_def)
  note a = fallback_selection_policies
             [of 3000 catalog failing_llm_env "''Kafe''" "[]" tight_project]
  note b = fallback_selection_policies
             [of 3000 catalog offline_env "''Kafe''" "[]" tight_project]
  from a b off fail catalog_nonneg show ?thesis
    by (simp add: first_fit_3000 simple_fit_3000)
qed

theorem recommender_without_client_counterexample:
  "recommend_deliverables_llm offline_env ''Kafe'' [] 3000 (map item_json catalog)
     = Inr (JList (map JStr (map key catalog)))
   \<and> total_cost catalog = 9000 \<and> \<not> total_cost catalog \<le> 3000
   \<and> fallback_deliverables 3000 (map item_json catalog)
       = Inr [''brand_strategy'', ''visual_brief'', ''competitor_audit'', ''brand_guidelines'']"
  by (simp add: recommend_deliverables_llm_def simple_fit_filter and_then_def offline_env_def
        simple_fit_3000 catalog_total fallback_deliverables_first_fit first_fit_3000)

section \<open>The dispatch, branch by branch\<close>

lemma dispatch_brief:
  "step_type s = ''input_needed'' \<Longrightarrow> title s = ''Project Brief'' \<Longrightarrow>
   generate_next_steps ev s p payload = project_brief_branch ev s p payload"
  by (simp add: generate_next_steps_def)


lemma dispatch_review:
  "step_type s = ''approval_gate'' \<Longrightarrow> title s = ''Strategy Review'' \<Longrightarrow>
   generate_next_steps ev s p payload = strategy_review_branch ev s p payload"
  by (simp add: generate_next_steps_def)


section \<open>The budget of the selected deliverables\<close>




lemma approve_branch_result:
  assumes "approve_branch ev s p payload = Inr g"
  shows "\<exists>r. select_deliverables (int_of_float (budget_cap p))
                (recommended_keys ev p (int_of_float (budget_cap p)) catalog) catalog 0 = Inr r
             \<and> map options_json (created g) = [JList [], JList (map item_json (fst r))]
             \<and> map title (created g) = [''Strategy Phase Complete'', ''Deliverable Selection'']"
  using assms
  by (cases "select_deliverables (int_of_float (budget_cap p))
               (recommended_keys ev p (int_of_float (budget_cap p)) catalog) catalog 0")
     (auto simp: approve_branch_def and_then_def Let_def new_step_def)


lemma tight_budget: "int_of_float (budget_cap tight_project) = 3000"
  by (simp add: tight_project_def demo_project_def int_of_float_def)

lemma select_tight_offline:
  "select_deliverables 3000 (recommended_keys offline_env tight_project 3000 catalog) catalog 0
     = Inr (first_fit_marked 3000 catalog, map item_title (first_fit 3000 catalog), 2900)"
proof -
  have "\<not> client offline_env" by (simp add: offline_env_def)
  from recommended_keys_offline [OF this, of tight_project 3000 catalog]
       select_after_simple_fit [of 3000 catalog] catalog_nonneg
  show ?thesis by (simp add: first_fit_3000)
qed



section \<open>The transitions\<close>

lemma and_then_Inr: "and_then m f = Inr y \<longleftrightarrow> (\<exists>x. m = Inr x \<and> f x = Inr y)"
  by (cases m) (simp_all add: and_then_def)

lemma brief_branch_result:
  "project_brief_branch ev s p payload = Inr g \<Longrightarrow>
     map sort_order (created g) = [sort_order s + 1] \<and> new_tasks g = []"
  by (auto simp: project_brief_branch_def Let_def new_step_def)

lemma direction_branch_result:
  "strategic_direction_branch ev s p payload = Inr g \<Longrightarrow>
     map sort_order (created g) = [sort_order s + 1]
     \<and> map (\<lambda>t. (step_type t, title t)) (created g) = [(''approval_gate'', ''Strategy Review'')]
     \<and> map task_title (new_tasks g)
         = [''Phase 2: Review Full Strategy'', ''Phase 2: Approve Brand Pillars'',
            ''Phase 2: Review Full Strategy'', ''Phase 2: Approve Brand Pillars'']
     \<and> list_all (\<lambda>t. task_project_id t = project_pk p) (new_tasks g)"
  by (auto simp: strategic_direction_branch_def Let_def new_step_def and_then_Inr
        phase2_tasks_def phase2_task_def)

lemma approve_branch_orders:
  "approve_branch ev s p payload = Inr g \<Longrightarrow>
     map sort_order (created g) = [sort_order s + 1, sort_order s + 2]"
  by (auto simp: approve_branch_def Let_def new_step_def and_then_Inr)

lemma revise_branch_result:
  "revise_branch ev s p payload = Inr g \<longleftrightarrow>
     g = \<lparr>created = [new_step p ''input_needed'' ''Strategist'' ''Strategy Revisions'' (JList [])
                        ''active'' ''strategy'' (sort_order s + 1) None],
          new_documents = [], new_tasks = [], new_deliverables = [],
          project_after = p\<lparr>review_status := ''REJECTED''\<rparr>\<rparr>"
  by (auto simp: revise_branch_def Let_def)

lemma chosen_deliverables_pending:
  "chosen_deliverables p ks cat = Inr (ds, c) \<Longrightarrow>
     list_all (\<lambda>d. deliverable_status d = ''Pending'') ds"
proof (induction cat arbitrary: ds c)
  case Nil
  then show ?case by auto
next
  case (Cons item items)
  then show ?case
    by (auto simp: and_then_Inr agent_deliverable_def split: if_splits)
qed

lemma selection_branch_result:
  "deliverable_selection_branch ev s p payload = Inr g \<Longrightarrow>
     map sort_order (created g) = [sort_order s + 1, sort_order s + 2]
     \<and> map (\<lambda>t. (step_type t, title t, status t)) (created g)
         = [(''milestone'', ''Deliverables Confirmed'', ''resolved''),
            (''agent_output'', ''Budget Allocation'', ''active'')]
     \<and> stage (project_after g) = ''Design'' \<and> project_status (project_after g) = ''Design''
     \<and> review_status (project_after g) = ''APPROVED''
     \<and> list_all (\<lambda>d. deliverable_status d = ''Pending'') (new_deliverables g)"
proof -
  assume h: "deliverable_selection_branch ev s p payload = Inr g"
  then obtain cat r where
    r: "chosen_deliverables (p\<lparr>review_status := ''APPROVED''\<rparr>)
          (parse_chosen_keys ev (or_else (payload_chosen_option payload) [])) cat = Inr r"
    and d: "new_deliverables g
              = fst r @ map (founder_deliverable (p\<lparr>review_status := ''APPROVED''\<rparr>))
                          (comma_separated (or_else (input_text payload) []))"
    by (auto simp: deliverable_selection_branch_def Let_def and_then_Inr)
  from chosen_deliverables_pending [of _ _ cat "fst r" "snd r"] r d
  have "list_all (\<lambda>d. deliverable_status d = ''Pending'') (new_deliverables g)"
    by (auto simp: founder_deliverable_def list_all_iff)
  with h show ?thesis
    by (auto simp: deliverable_selection_branch_def Let_def new_step_def and_then_Inr)
qed

lemma created_orders:
  assumes "generate_next_steps ev s p payload = Inr g"
  shows "map sort_order (created g) = []
         \<or> map sort_order (created g) = [sort_order s + 1]
         \<or> map sort_order (created g) = [sort_order s + 1, sort_order s + 2]"
proof -
  consider
    (brief) "project_brief_branch ev s p payload = Inr g"
    | (direction) "strategic_direction_branch ev s p payload = Inr g"
    | (approve) "approve_branch ev s p payload = Inr g"
    | (revise) "revise_branch ev s p payload = Inr g"
    | (selection) "deliverable_selection_branch ev s p payload = Inr g"
    | (none) "created g = []"
    using assms
    by (auto simp: generate_next_steps_def strategy_review_branch_def split: if_splits)
  then show ?thesis
  proof cases
    case brief
    then show ?thesis by (simp add: brief_branch_result)
  next
    case direction
    then show ?thesis by (simp add: direction_branch_result)
  next
    case approve
    then show ?thesis by (simp add: approve_branch_orders)
  next
    case revise
    then show ?thesis by (simp add: revise_branch_result new_step_def)
  next
    case selection
    then show ?thesis by (simp add: selection_branch_result)
  next
    case none
    then show ?thesis by simp
  qed
qed

text \<open>
  \<^bold>\<open>Claim C5\<close>. Whatever the branch, every step that a call of \<^verbatim>\<open>generate_next_steps\<close> creates
  has a \<^verbatim>\<open>sort_order\<close> above that of the resolved step, and the steps of one call are in strictly
  increasing order.
\<close>

theorem monotonic_ordering:
  "generate_next_steps ev s p payload = Inr g \<Longrightarrow>
     list_all (\<lambda>t. sort_order s < sort_order t) (created g)
     \<and> sorted_wrt (<) (map sort_order (created g))"
proof -
  assume "generate_next_steps ev s p payload = Inr g"
  from created_orders [OF this]
  have "map sort_order (created g) \<in> {[], [sort_order s + 1], [sort_order s + 1, sort_order s + 2]}"
    by auto
  moreover have "list_all (\<lambda>t. sort_order s < sort_order t) (created g)
                 \<longleftrightarrow> list_all (\<lambda>n. sort_order s < n) (map sort_order (created g))"
    by (simp add: list_all_iff)
  ultimately show ?thesis by auto
qed

lemma approve_tight_offline:
  "\<exists>g. generate_next_steps offline_env review_step tight_project approve_payload = Inr g"
  by (simp add: generate_next_steps_def strategy_review_branch_def approve_branch_def
        review_step_def approve_payload_def tight_budget select_tight_offline and_then_def)

theorem monotonic_ordering_witness:
  "\<exists>g. generate_next_steps offline_env review_step tight_project approve_payload = Inr g
       \<and> sort_order review_step = 2
       \<and> map sort_order (created g) = [3, 4]
       \<and> list_all (\<lambda>t. sort_order review_step < sort_order t) (created g)
       \<and> sorted_wrt (<) (map sort_order (created g))"
proof -
  from approve_tight_offline obtain g where
    g: "generate_next_steps offline_env review_step tight_project approve_payload = Inr g" ..
  then have "approve_branch offline_env review_step tight_project approve_payload = Inr g"
    by (simp add: generate_next_steps_def strategy_review_branch_def review_step_def
          approve_payload_def)
  from approve_branch_orders [OF this]
  have "map sort_order (created g) = [3, 4]" by (simp add: review_step_def)
  with monotonic_ordering [OF g] g show ?thesis by (auto simp: review_step_def)
qed

lemma get_project_update_step [simp]: "get_project (update_step s d) pid = get_project d pid"
  by (simp add: get_project_def update_step_def)

lemma get_step_pk: "get_step d sid = Some s \<Longrightarrow> step_pk s = Some sid"
  by (auto simp: get_step_def find_Some_iff)

text \<open>
  \<^bold>\<open>Claim C9\<close>. For a step whose type and title match no transition, \<^verbatim>\<open>generate_next_steps\<close>
  raises nothing and returns no step; it adds no document, task or deliverable and leaves the
  project as it is. The request that resolved the step answers \<^verbatim>\<open>resolved\<close> with
  \<open>next_steps_created = 0\<close>.
\<close>

theorem unrecognized_state_is_silent:
  "(\<not> known_transition (step_type s) (title s) \<longrightarrow>
      generate_next_steps ev s p payload
        = Inr \<lparr>created = [], new_documents = [], new_tasks = [], new_deliverables = [],
               project_after = p\<rparr>)
   \<and> (get_step d (step_id payload) = Some stored \<and> project_id stored = pid
       \<and> get_project d pid = Some p \<and> \<not> known_transition (step_type stored) (title stored) \<longrightarrow>
       snd (resolve_workflow_step ev d pid payload)
         = Inr \<lparr>response_status = ''resolved'', response_step_id = Some (step_id payload),
                next_steps_created = 0\<rparr>
       \<and> length (steps (fst (resolve_workflow_step ev d pid payload))) = length (steps d)
       \<and> documents (fst (resolve_workflow_step ev d pid payload)) = documents d
       \<and> tasks (fst (resolve_workflow_step ev d pid payload)) = tasks d
       \<and> deliverables (fst (resolve_workflow_step ev d pid payload)) = deliverables d)"
  (is "?dispatch \<and> (?found \<longrightarrow> ?request)")
proof (rule conjI)
  show ?dispatch
    by (auto simp: known_transition_def generate_next_steps_def)
next
  show "?found \<longrightarrow> ?request"
  proof (rule impI)
    assume h: ?found
    define s1 where "s1 = stored\<lparr>status := ''resolved'', resolved_at := Some (utcnow ev),
                            chosen_option := Some (or_else (payload_chosen_option payload)
                                                     (or_else (input_text payload) (action payload)))\<rparr>"
    from h have "\<not> known_transition (step_type s1) (title s1)" by (simp add: s1_def)
    then have gen: "generate_next_steps ev s1 p payload
          = Inr \<lparr>created = [], new_documents = [], new_tasks = [], new_deliverables = [],
                 project_after = p\<rparr>"
      by (auto simp: known_transition_def generate_next_steps_def)
    from h have "step_pk stored = Some (step_id payload)" by (auto dest: get_step_pk)
    then have pk: "step_pk s1 = Some (step_id payload)" by (simp add: s1_def)
    from h gen pk have r: "resolve_workflow_step ev d pid payload
        = (commit_generated \<lparr>created = [], new_documents = [], new_tasks = [],
                             new_deliverables = [], project_after = p\<rparr> (update_step s1 d),
           Inr \<lparr>response_status = ''resolved'', response_step_id = Some (step_id payload),
                next_steps_created = 0\<rparr>)"
      by (simp add: resolve_workflow_step_def Let_def s1_def [symmetric])
    show ?request
      by (simp add: r commit_generated_def update_project_def update_step_def)
  qed
qed

theorem unrecognized_state_is_silent_witness:
  "\<not> known_transition (step_type revisions_step) (title revisions_step)
   \<and> generate_next_steps offline_env revisions_step tight_project revisions_payload
       = Inr \<lparr>created = [], new_documents = [], new_tasks = [], new_deliverables = [],
              project_after = tight_project\<rparr>
   \<and> snd (resolve_workflow_step offline_env revisions_db 1 revisions_payload)
       = Inr \<lparr>response_status = ''resolved'', response_step_id = Some 4, next_steps_created = 0\<rparr>
   \<and> length (steps (fst (resolve_workflow_step offline_env revisions_db 1 revisions_payload))) = 2
   \<and> documents (fst (resolve_workflow_step offline_env revisions_db 1 revisions_payload)) = []
   \<and> tasks (fst (resolve_workflow_step offline_env revisions_db 1 revisions_payload)) = []"
proof -
  have u: "\<not> known_transition (step_type revisions_step) (title revisions_step)"
    by (simp add: known_transition_def revisions_step_def)
  have f: "get_step revisions_db (step_id revisions_payload) = Some revisions_step
           \<and> project_id revisions_step = 1 \<and> get_project revisions_db 1 = Some tight_project"
    by (simp add: get_step_def get_project_def revisions_db_def revisions_payload_def
          revisions_step_def review_step_def tight_project_def demo_project_def)
  from unrecognized_state_is_silent
         [of revisions_step offline_env tight_project revisions_payload revisions_db
             revisions_step 1] u f
  show ?thesis
    by (simp add: revisions_db_def revisions_payload_def)
qed



text \<open>
  \<^bold>\<open>Claim C4\<close>, as amended. Resolving the review step with an action other than
  \<^verbatim>\<open>approve\<close> and a chosen option other than \<^verbatim>\<open>approve\<close> creates exactly one step, the active
  \<^verbatim>\<open>input_needed\<close> step ``Strategy Revisions'', sets the review status to \<^verbatim>\<open>REJECTED\<close> and
  creates no milestone. A payload whose chosen option is \<^verbatim>\<open>approve\<close> is an approval whatever
  its action: the call that returns creates the milestone.
\<close>

theorem strategy_review_rejection:
  "(step_type s = ''approval_gate'' \<and> title s = ''Strategy Review''
      \<and> action payload \<noteq> ''approve'' \<and> payload_chosen_option payload \<noteq> Some ''approve'' \<longrightarrow>
      (\<exists>g. generate_next_steps ev s p payload = Inr g
           \<and> map (\<lambda>t. (step_type t, title t, status t)) (created g)
               = [(''input_needed'', ''Strategy Revisions'', ''active'')]
           \<and> review_status (project_after g) = ''REJECTED''
           \<and> ''Strategy Phase Complete'' \<notin> set (map title (created g))))
   \<and> (step_type s = ''approval_gate'' \<and> title s = ''Strategy Review''
      \<and> payload_chosen_option payload = Some ''approve''
      \<and> generate_next_steps ev s p payload = Inr g' \<longrightarrow>
      map title (created g') = [''Strategy Phase Complete'', ''Deliverable Selection''])"
  (is "(?h1 \<longrightarrow> ?c1) \<and> (?h2 \<longrightarrow> ?c2)")
proof (intro conjI)
  show "?h1 \<longrightarrow> ?c1"
  proof (rule impI)
    assume h: ?h1
    then have ty: "step_type s = ''approval_gate''" and ti: "title s = ''Strategy Review''"
      and no: "action payload \<noteq> ''approve''" "payload_chosen_option payload \<noteq> Some ''approve''"
      by simp_all
    from no have "generate_next_steps ev s p payload = revise_branch ev s p payload"
      by (simp add: dispatch_review [OF ty ti] strategy_review_branch_def)
    then show ?c1
      by (simp add: revise_branch_def Let_def new_step_def)
  qed
next
  show "?h2 \<longrightarrow> ?c2"
  proof (rule impI)
    assume h: ?h2
    then have ty: "step_type s = ''approval_gate''" and ti: "title s = ''Strategy Review''"
      and yes: "payload_chosen_option payload = Some ''approve''"
      and gen: "generate_next_steps ev s p payload = Inr g'"
      by simp_all
    from gen yes have "approve_branch ev s p payload = Inr g'"
      by (simp add: dispatch_review [OF ty ti] strategy_review_branch_def)
    from approve_branch_result [OF this] show ?c2 by auto
  qed
qed

theorem strategy_review_rejection_witness:
  "(\<exists>g. generate_next_steps offline_env review_step tight_project reject_payload = Inr g
        \<and> map (\<lambda>t. (step_type t, title t, status t)) (created g)
            = [(''input_needed'', ''Strategy Revisions'', ''active'')]
        \<and> review_status (project_after g) = ''REJECTED''
        \<and> ''Strategy Phase Complete'' \<notin> set (map title (created g)))
   \<and> (\<exists>g'. generate_next_steps offline_env review_step tight_project choose_approve_payload = Inr g'
        \<and> map title (created g') = [''Strategy Phase Complete'', ''Deliverable Selection''])"
proof -
  have s: "step_type review_step = ''approval_gate''" "title review_step = ''Strategy Review''"
    by (simp_all add: review_step_def)
  have r: "action reject_payload \<noteq> ''approve''" "payload_chosen_option reject_payload \<noteq> Some ''approve''"
    by (simp_all add: reject_payload_def)
  have c: "payload_chosen_option choose_approve_payload = Some ''approve''"
    by (simp add: choose_approve_payload_def)
  obtain g' where
    g': "generate_next_steps offline_env review_step tight_project choose_approve_payload = Inr g'"
    by (simp add: generate_next_steps_def strategy_review_branch_def approve_branch_def
          review_step_def choose_approve_payload_def tight_budget select_tight_offline and_then_def)
  from strategy_review_rejection
         [where s = review_step and ev = offline_env and p = tight_project
            and payload = reject_payload, THEN conjunct1] s r
  have first: "\<exists>g. generate_next_steps offline_env review_step tight_project reject_payload = Inr g
        \<and> map (\<lambda>t. (step_type t, title t, status t)) (created g)
            = [(''input_needed'', ''Strategy Revisions'', ''active'')]
        \<and> review_status (project_after g) = ''REJECTED''
        \<and> ''Strategy Phase Complete'' \<notin> set (map title (created g))"
    by simp
  from strategy_review_rejection
         [where s = review_step and ev = offline_env and p = tight_project
            and payload = choose_approve_payload and g' = g', THEN conjunct2] s c g'
  have "map title (created g') = [''Strategy Phase Complete'', ''Deliverable Selection'']"
    by simp
  with g' first show ?thesis by simp
qed

theorem chosen_option_approve_counterexample:
  "action choose_approve_payload \<noteq> ''approve''
   \<and> step_type review_step = ''approval_gate'' \<and> title review_step = ''Strategy Review''
   \<and> outcome (generate_next_steps offline_env review_step tight_project choose_approve_payload)
       = Inr ([(''milestone'', ''Strategy Phase Complete''),
               (''decision_gate'', ''Deliverable Selection'')], ''PENDING'')"
  by (simp add: outcome_def generate_next_steps_def strategy_review_branch_def approve_branch_def
        review_step_def choose_approve_payload_def tight_budget select_tight_offline and_then_def
        new_step_def)

section \<open>The brief and the deliverable selection\<close>

lemma brief_directions_cases:
  "brief_directions ev p b =
     (if \<not> client ev then fallback_directions (name p)
      else case llm_directions ev of
             None \<Rightarrow> fallback_directions (name p)
           | Some j \<Rightarrow>
               if truthy j then j
               else JList [JDict [(''key'', JStr ''A''), (''title'', JStr ''Strategy Error''),
                                  (''description'', JStr ''Could not generate strategy.'')]])"
  by (simp add: brief_directions_def brand_strategist_run_def
        generate_strategic_directions_llm_def dict_get_def Let_def fallback_directions_def
        split: option.splits)

text \<open>
  \<^bold>\<open>Claim C6\<close>, as amended. Resolving the step ``Project Brief'' with a non-empty text stores
  the text as the brief of the project and creates exactly one step, the decision gate
  ``Strategic Direction''. Its options are the three fallback directions when there is no
  client or the call to the language model fails, the answer of the language model when that
  answer is not empty, and a single entry ``Strategy Error'' when it is empty.
\<close>

theorem brief_submission:
  "(step_type s = ''input_needed'' \<and> title s = ''Project Brief''
      \<and> input_text payload = Some t \<and> t \<noteq> [] \<longrightarrow>
      (\<exists>g. generate_next_steps ev s p payload = Inr g
           \<and> client_brief (project_after g) = t
           \<and> map (\<lambda>x. (step_type x, title x)) (created g)
               = [(''decision_gate'', ''Strategic Direction'')]
           \<and> map options_json (created g) = [brief_directions ev (p\<lparr>client_brief := t\<rparr>) t]))
   \<and> (\<not> client ev \<or> llm_directions ev = None \<longrightarrow>
        brief_directions ev p b = fallback_directions (name p)
        \<and> (\<exists>x y z. fallback_directions (name p) = JList [x, y, z]))
   \<and> (client ev \<and> llm_directions ev = Some j \<and> truthy j \<longrightarrow> brief_directions ev p b = j)
   \<and> (client ev \<and> llm_directions ev = Some j \<and> \<not> truthy j \<longrightarrow>
        brief_directions ev p b
          = JList [JDict [(''key'', JStr ''A''), (''title'', JStr ''Strategy Error''),
                          (''description'', JStr ''Could not generate strategy.'')]])"
  (is "(?h1 \<longrightarrow> ?c1) \<and> (?h2 \<longrightarrow> ?c2) \<and> (?h3 \<longrightarrow> ?c3) \<and> (?h4 \<longrightarrow> ?c4)")
proof (intro conjI)
  show "?h1 \<longrightarrow> ?c1"
  proof (rule impI)
    assume h: ?h1
    then have ty: "step_type s = ''input_needed''" and ti: "title s = ''Project Brief''"
      and t: "input_text payload = Some t" "t \<noteq> []" by simp_all
    from t show ?c1
      by (simp add: dispatch_brief [OF ty ti] project_brief_branch_def Let_def new_step_def)
  qed
next
  show "?h2 \<longrightarrow> ?c2"
    by (auto simp: brief_directions_cases fallback_directions_def)
next
  show "?h3 \<longrightarrow> ?c3" by (simp add: brief_directions_cases)
next
  show "?h4 \<longrightarrow> ?c4" by (simp add: brief_directions_cases)
qed

theorem brief_submission_witness:
  "(\<exists>g. generate_next_steps offline_env brief_step demo_project brief_payload = Inr g
        \<and> client_brief (project_after g) = ''A sustainable coffee brand''
        \<and> map (\<lambda>x. (step_type x, title x)) (created g)
            = [(''decision_gate'', ''Strategic Direction'')]
        \<and> map options_json (created g) = [fallback_directions ''Kafe''])
   \<and> (\<exists>x y z. fallback_directions ''Kafe'' = JList [x, y, z])
   \<and> brief_directions (failing_llm_env\<lparr>llm_directions := Some (JList [JStr ''only one''])\<rparr>)
        demo_project [] = JList [JStr ''only one'']
   \<and> brief_directions empty_llm_env demo_project []
        = JList [JDict [(''key'', JStr ''A''), (''title'', JStr ''Strategy Error''),
                        (''description'', JStr ''Could not generate strategy.'')]]"
proof -
  have s: "step_type brief_step = ''input_needed''" "title brief_step = ''Project Brief''"
    "input_text brief_payload = Some ''A sustainable coffee brand''"
    by (simp_all add: brief_step_def brief_payload_def)
  have off: "\<not> client offline_env" by (simp add: offline_env_def)
  have n: "name demo_project = ''Kafe''" by (simp add: demo_project_def)
  note a = brief_submission
             [where s = brief_step and payload = brief_payload and ev = offline_env
                and t = "''A sustainable coffee brand''" and p = demo_project, THEN conjunct1]
  note b = brief_submission
             [where ev = offline_env and p = "demo_project\<lparr>client_brief := ''A sustainable coffee brand''\<rparr>"
                and b = "''A sustainable coffee brand''",
              THEN conjunct2, THEN conjunct1]
  note c = brief_submission
             [where ev = "failing_llm_env\<lparr>llm_directions := Some (JList [JStr ''only one''])\<rparr>"
                and p = demo_project and b = "[]" and j = "JList [JStr ''only one'']",
              THEN conjunct2, THEN conjunct2, THEN conjunct1]
  note d = brief_submission
             [where ev = empty_llm_env and p = demo_project and b = "[]" and j = "JList []",
              THEN conjunct2, THEN conjunct2, THEN conjunct2]
  have c': "brief_directions (failing_llm_env\<lparr>llm_directions := Some (JList [JStr ''only one''])\<rparr>)
        demo_project [] = JList [JStr ''only one'']"
    using c by (simp add: failing_llm_env_def offline_env_def)
  have d': "brief_directions empty_llm_env demo_project []
        = JList [JDict [(''key'', JStr ''A''), (''title'', JStr ''Strategy Error''),
                        (''description'', JStr ''Could not generate strategy.'')]]"
    using d by (simp add: empty_llm_env_def offline_env_def)
  from a b s off n c' d' show ?thesis by simp
qed

theorem empty_directions_counterexample:
  "step_type brief_step = ''input_needed'' \<and> title brief_step = ''Project Brief''
   \<and> input_text brief_payload = Some ''A sustainable coffee brand''
   \<and> created_options (generate_next_steps empty_llm_env brief_step demo_project brief_payload)
       = Inr [JList [JDict [(''key'', JStr ''A''), (''title'', JStr ''Strategy Error''),
                            (''description'', JStr ''Could not generate strategy.'')]]]"
  by (simp add: created_options_def generate_next_steps_def project_brief_branch_def
        brief_directions_cases brief_step_def brief_payload_def empty_llm_env_def
        offline_env_def new_step_def Let_def)


lemma agent_deliverable_project [simp]:
  "agent_deliverable (p\<lparr>review_status := r\<rparr>) t = agent_deliverable p t"
  "founder_deliverable (p\<lparr>review_status := r\<rparr>) t = founder_deliverable p t"
  by (simp_all add: agent_deliverable_def founder_deliverable_def)






section \<open>Seeding\<close>

lemma find_project_id_None:
  "find (\<lambda>s. project_id s = pid) ss = None \<longleftrightarrow> filter (\<lambda>s. project_id s = pid) ss = []"
  by (induction ss) auto

text \<open>
  \<^bold>\<open>Claim C8\<close>. For a project that exists, \<^verbatim>\<open>seed_workflow\<close> on a project without steps appends
  exactly one step, the active \<^verbatim>\<open>input_needed\<close> step ``Project Brief'' of that project, and
  answers \<^verbatim>\<open>seeded\<close>; on a project that has a step it changes nothing and answers
  \<^verbatim>\<open>exists\<close>. A second call after any first call changes nothing and answers \<^verbatim>\<open>exists\<close>.
\<close>

theorem seed_idempotent:
  "get_project d pid = Some p \<longrightarrow>
     (filter (\<lambda>s. project_id s = pid) (steps d) = [] \<longrightarrow>
        (\<exists>b. steps (fst (seed_workflow d pid)) = steps d @ [b]
             \<and> title b = ''Project Brief'' \<and> step_type b = ''input_needed''
             \<and> project_id b = pid \<and> status b = ''active'' \<and> sort_order b = 0
             \<and> snd (seed_workflow d pid) = Inr (''seeded'', step_pk b)))
     \<and> (filter (\<lambda>s. project_id s = pid) (steps d) \<noteq> [] \<longrightarrow>
        seed_workflow d pid = (d, Inr (''exists'', None)))
     \<and> seed_workflow (fst (seed_workflow d pid)) pid
         = (fst (seed_workflow d pid), Inr (''exists'', None))
     \<and> length (filter (\<lambda>s. project_id s = pid \<and> title s = ''Project Brief'')
                 (steps (fst (seed_workflow (fst (seed_workflow d pid)) pid))))
         \<le> max 1 (length (filter (\<lambda>s. project_id s = pid \<and> title s = ''Project Brief'')
                              (steps d)))"
proof (rule impI)
  assume p: "get_project d pid = Some p"
  show "(filter (\<lambda>s. project_id s = pid) (steps d) = [] \<longrightarrow>
        (\<exists>b. steps (fst (seed_workflow d pid)) = steps d @ [b]
             \<and> title b = ''Project Brief'' \<and> step_type b = ''input_needed''
             \<and> project_id b = pid \<and> status b = ''active'' \<and> sort_order b = 0
             \<and> snd (seed_workflow d pid) = Inr (''seeded'', step_pk b)))
     \<and> (filter (\<lambda>s. project_id s = pid) (steps d) \<noteq> [] \<longrightarrow>
        seed_workflow d pid = (d, Inr (''exists'', None)))
     \<and> seed_workflow (fst (seed_workflow d pid)) pid
         = (fst (seed_workflow d pid), Inr (''exists'', None))
     \<and> length (filter (\<lambda>s. project_id s = pid \<and> title s = ''Project Brief'')
                 (steps (fst (seed_workflow (fst (seed_workflow d pid)) pid))))
         \<le> max 1 (length (filter (\<lambda>s. project_id s = pid \<and> title s = ''Project Brief'')
                              (steps d)))"
  proof (cases "filter (\<lambda>s. project_id s = pid) (steps d) = []")
    case True
    then have none: "find (\<lambda>s. project_id s = pid) (steps d) = None"
      by (simp add: find_project_id_None)
    define b where "b = \<lparr>step_pk = Some (next_pk (steps d)), project_id = pid,
                          step_type = ''input_needed'', agent = ''Strategist'',
                          title = ''Project Brief'', options_json = JList [],
                          chosen_option = None, status = ''active'', phase = ''strategy'',
                          sort_order = 0, resolved_at = None\<rparr>"
    from p none have first: "seed_workflow d pid
        = (d\<lparr>steps := steps d @ [b]\<rparr>, Inr (''seeded'', Some (next_pk (steps d))))"
      by (simp add: seed_workflow_def Let_def b_def)
    from p have p': "get_project (d\<lparr>steps := steps d @ [b]\<rparr>) pid = Some p"
      by (simp add: get_project_def)
    have "filter (\<lambda>s. project_id s = pid) (steps d @ [b]) \<noteq> []" by (simp add: b_def)
    then obtain e where "find (\<lambda>s. project_id s = pid) (steps d @ [b]) = Some e"
      using find_project_id_None [of pid "steps d @ [b]"] by auto
    with p' have second: "seed_workflow (d\<lparr>steps := steps d @ [b]\<rparr>) pid
        = (d\<lparr>steps := steps d @ [b]\<rparr>, Inr (''exists'', None))"
      by (simp add: seed_workflow_def)
    have "filter (\<lambda>s. project_id s = pid \<and> title s = ''Project Brief'') (steps d) = []"
      using True by (induction "steps d") (auto simp: filter_empty_conv)
    with True first second show ?thesis by (simp add: b_def)
  next
    case False
    then obtain e where "find (\<lambda>s. project_id s = pid) (steps d) = Some e"
      using find_project_id_None [of pid "steps d"] by auto
    with p have "seed_workflow d pid = (d, Inr (''exists'', None))"
      by (simp add: seed_workflow_def)
    with False show ?thesis by simp
  qed
qed

theorem seed_idempotent_witness:
  "get_project fresh_db 1 = Some demo_project
   \<and> steps fresh_db = []
   \<and> map (\<lambda>b. (step_pk b, project_id b, step_type b, title b, status b, sort_order b))
        (steps (fst (seed_workflow fresh_db 1)))
       = [(Some 1, 1, ''input_needed'', ''Project Brief'', ''active'', 0)]
   \<and> snd (seed_workflow fresh_db 1) = Inr (''seeded'', Some 1)
   \<and> seed_workflow (fst (seed_workflow fresh_db 1)) 1
       = (fst (seed_workflow fresh_db 1), Inr (''exists'', None))
   \<and> length (steps (fst (seed_workflow (fst (seed_workflow fresh_db 1)) 1))) = 1
   \<and> get_project revisions_db 1 = Some tight_project
   \<and> seed_workflow revisions_db 1 = (revisions_db, Inr (''exists'', None))"
proof -
  have q: "get_project revisions_db 1 = Some tight_project"
    by (simp add: get_project_def revisions_db_def tight_project_def demo_project_def)
  have ne: "filter (\<lambda>s. project_id s = 1) (steps revisions_db) \<noteq> []"
    by (simp add: revisions_db_def review_step_def)
  from seed_idempotent [where d = revisions_db and pid = 1 and p = tight_project] q ne
  have ex: "seed_workflow revisions_db 1 = (revisions_db, Inr (''exists'', None))"
    by simp
  have p: "get_project fresh_db 1 = Some demo_project"
    by (simp add: get_project_def fresh_db_def demo_project_def)
  have e: "steps fresh_db = []" by (simp add: fresh_db_def)
  from seed_idempotent [where d = fresh_db and pid = 1 and p = demo_project] p e
  obtain b where b: "steps (fst (seed_workflow fresh_db 1)) = [b]"
    "title b = ''Project Brief''" "step_type b = ''input_needed''" "project_id b = 1"
    "status b = ''active''" "sort_order b = 0"
    "snd (seed_workflow fresh_db 1) = Inr (''seeded'', step_pk b)"
    and again: "seed_workflow (fst (seed_workflow fresh_db 1)) 1
       = (fst (seed_workflow fresh_db 1), Inr (''exists'', None))"
    by auto
  have pk: "snd (seed_workflow fresh_db 1) = Inr (''seeded'', Some 1)"
    using p e by (simp add: seed_workflow_def next_pk_def)
  with b have "step_pk b = Some 1" by simp
  with b again pk p e q ex show ?thesis by simp
qed

section \<open>The two commits of a resolution\<close>

lemma find_replace:
  "find (\<lambda>t. step_pk t = Some sid) ss = Some stored \<Longrightarrow> step_pk s1 = Some sid \<Longrightarrow>
   find (\<lambda>t. step_pk t = Some sid) (map (\<lambda>t. if step_pk t = Some sid then s1 else t) ss) = Some s1"
  by (induction ss) (auto split: if_splits)

lemma get_step_update_step:
  assumes "get_step d sid = Some stored" and "step_pk s1 = step_pk stored"
  shows "get_step (update_step s1 d) sid = Some s1"
proof -
  from assms have pk: "step_pk s1 = Some sid" by (simp add: get_step_pk)
  with assms(1) find_replace [of sid "steps d" stored s1] show ?thesis
    by (simp add: get_step_def update_step_def)
qed

lemma length_insert_steps: "length (insert_steps ss new) = length ss + length new"
  by (induction new arbitrary: ss) simp_all

lemma resolve_found:
  assumes "get_step d (step_id payload) = Some stored" and "project_id stored = pid"
    and "get_project d pid = Some p"
  shows "resolve_workflow_step ev d pid payload
     = (case generate_next_steps ev (mark_resolved ev payload stored) p payload of
          Inl e \<Rightarrow> (update_step (mark_resolved ev payload stored) d, Inl e)
        | Inr g \<Rightarrow>
            (commit_generated g (update_step (mark_resolved ev payload stored) d),
             Inr \<lparr>response_status = ''resolved'', response_step_id = Some (step_id payload),
                  next_steps_created = length (created g)\<rparr>))"
proof -
  from assms(1) have "step_pk stored = Some (step_id payload)" by (rule get_step_pk)
  with assms show ?thesis
    by (simp add: resolve_workflow_step_def Let_def mark_resolved_def split: sum.splits)
qed

text \<open>
  \<^bold>\<open>Claim C1\<close>, as amended. A request that finds its step and its project writes in two
  units. The first, committed before the next steps are generated, marks the step as
  resolved. The second holds everything that \<^verbatim>\<open>generate_next_steps\<close> adds or changes. When
  \<^verbatim>\<open>generate_next_steps\<close> raises, the request fails with that exception, the step stays resolved
  and nothing of the second unit is applied; when it returns, all of the second unit is
  applied. A request that does not find its step, or finds it under another project, changes
  nothing.
\<close>

theorem resolve_commits_in_two_units:
  "(get_step d (step_id payload) = Some stored \<and> project_id stored = pid \<and> get_project d pid = Some p
      \<and> generate_next_steps ev (mark_resolved ev payload stored) p payload = Inl e \<longrightarrow>
      resolve_workflow_step ev d pid payload = (update_step (mark_resolved ev payload stored) d, Inl e)
      \<and> get_step (fst (resolve_workflow_step ev d pid payload)) (step_id payload)
          = Some (mark_resolved ev payload stored)
      \<and> status (mark_resolved ev payload stored) = ''resolved''
      \<and> length (steps (fst (resolve_workflow_step ev d pid payload))) = length (steps d)
      \<and> projects (fst (resolve_workflow_step ev d pid payload)) = projects d
      \<and> documents (fst (resolve_workflow_step ev d pid payload)) = documents d
      \<and> tasks (fst (resolve_workflow_step ev d pid payload)) = tasks d
      \<and> deliverables (fst (resolve_workflow_step ev d pid payload)) = deliverables d)
   \<and> (get_step d (step_id payload) = Some stored \<and> project_id stored = pid \<and> get_project d pid = Some p
      \<and> generate_next_steps ev (mark_resolved ev payload stored) p payload = Inr g \<longrightarrow>
      resolve_workflow_step ev d pid payload
        = (commit_generated g (update_step (mark_resolved ev payload stored) d),
           Inr \<lparr>response_status = ''resolved'', response_step_id = Some (step_id payload),
                next_steps_created = length (created g)\<rparr>)
      \<and> length (steps (fst (resolve_workflow_step ev d pid payload)))
          = length (steps d) + length (created g)
      \<and> projects (fst (resolve_workflow_step ev d pid payload))
          = projects (update_project (project_after g) d)
      \<and> documents (fst (resolve_workflow_step ev d pid payload)) = documents d @ new_documents g
      \<and> tasks (fst (resolve_workflow_step ev d pid payload)) = tasks d @ new_tasks g
      \<and> deliverables (fst (resolve_workflow_step ev d pid payload))
          = deliverables d @ new_deliverables g)
   \<and> (get_step d (step_id payload) = None
       \<or> (get_step d (step_id payload) = Some stored \<and> project_id stored \<noteq> pid) \<longrightarrow>
      resolve_workflow_step ev d pid payload = (d, Inl NotFound))"
  (is "(?h1 \<longrightarrow> ?c1) \<and> (?h2 \<longrightarrow> ?c2) \<and> (?h3 \<longrightarrow> ?c3)")
proof (intro conjI)
  show "?h1 \<longrightarrow> ?c1"
  proof (rule impI)
    assume h: ?h1
    then have f: "get_step d (step_id payload) = Some stored" "project_id stored = pid"
      "get_project d pid = Some p"
      and gen: "generate_next_steps ev (mark_resolved ev payload stored) p payload = Inl e"
      by simp_all
    have r: "resolve_workflow_step ev d pid payload
               = (update_step (mark_resolved ev payload stored) d, Inl e)"
      by (simp add: resolve_found [OF f] gen)
    have pk: "step_pk (mark_resolved ev payload stored) = step_pk stored"
      by (simp add: mark_resolved_def)
    from get_step_update_step [OF f(1) pk] show ?c1
      by (simp add: r) (simp add: update_step_def mark_resolved_def)
  qed
next
  show "?h2 \<longrightarrow> ?c2"
  proof (rule impI)
    assume h: ?h2
    then have f: "get_step d (step_id payload) = Some stored" "project_id stored = pid"
      "get_project d pid = Some p"
      and gen: "generate_next_steps ev (mark_resolved ev payload stored) p payload = Inr g"
      by simp_all
    have r: "resolve_workflow_step ev d pid payload
        = (commit_generated g (update_step (mark_resolved ev payload stored) d),
           Inr \<lparr>response_status = ''resolved'', response_step_id = Some (step_id payload),
                next_steps_created = length (created g)\<rparr>)"
      by (simp add: resolve_found [OF f] gen)
    show ?c2
      by (simp add: r)
         (simp add: commit_generated_def update_project_def update_step_def length_insert_steps)
  qed
next
  show "?h3 \<longrightarrow> ?c3"
    by (auto simp: resolve_workflow_step_def)
qed

lemma stalled_generation:
  "generate_next_steps offline_env (mark_resolved offline_env choose_b_payload empty_direction_step)
     tight_project choose_b_payload = Inl IndexError"
  by (simp add: generate_next_steps_def strategic_direction_branch_def chosen_direction_def
        mark_resolved_def empty_direction_step_def direction_step_def choose_b_payload_def
        and_then_def)

lemma stalled_found:
  "get_step stalled_db (step_id choose_b_payload) = Some empty_direction_step"
  "project_id empty_direction_step = 1"
  "get_project stalled_db 1 = Some tight_project"
  by (simp_all add: get_step_def get_project_def stalled_db_def choose_b_payload_def
        empty_direction_step_def direction_step_def tight_project_def demo_project_def)

lemma direction_found:
  "get_step direction_db (step_id choose_b_payload) = Some direction_step"
  "project_id direction_step = 1"
  "get_project direction_db 1 = Some tight_project"
  by (simp_all add: get_step_def get_project_def direction_db_def choose_b_payload_def
        direction_step_def tight_project_def demo_project_def)

lemma direction_generation:
  "\<exists>g. generate_next_steps offline_env (mark_resolved offline_env choose_b_payload direction_step)
          tight_project choose_b_payload = Inr g
       \<and> length (created g) = 1 \<and> length (new_documents g) = 2 \<and> length (new_tasks g) = 4"
  by (simp add: generate_next_steps_def strategic_direction_branch_def chosen_direction_def
        mark_resolved_def direction_step_def choose_b_payload_def fallback_directions_def
        expanded_strategy_def brand_strategist_run_def expand_strategy_llm_def
        fallback_strategy_def strategy_summary_def strategy_body_check_def py_join_def
        dict_get_def and_then_def Let_def offline_env_def phase2_tasks_def)

theorem resolve_commits_in_two_units_witness:
  "resolve_workflow_step offline_env stalled_db 1 choose_b_payload
     = (update_step (mark_resolved offline_env choose_b_payload empty_direction_step) stalled_db,
        Inl IndexError)
   \<and> status (mark_resolved offline_env choose_b_payload empty_direction_step) = ''resolved''
   \<and> length (steps (fst (resolve_workflow_step offline_env stalled_db 1 choose_b_payload))) = 1
   \<and> documents (fst (resolve_workflow_step offline_env stalled_db 1 choose_b_payload)) = []
   \<and> tasks (fst (resolve_workflow_step offline_env stalled_db 1 choose_b_payload)) = []
   \<and> length (steps (fst (resolve_workflow_step offline_env direction_db 1 choose_b_payload))) = 2
   \<and> length (documents (fst (resolve_workflow_step offline_env direction_db 1 choose_b_payload))) = 2
   \<and> length (tasks (fst (resolve_workflow_step offline_env direction_db 1 choose_b_payload))) = 4
   \<and> resolve_workflow_step offline_env fresh_db 1 choose_b_payload = (fresh_db, Inl NotFound)
   \<and> resolve_workflow_step offline_env direction_db 7 choose_b_payload
       = (direction_db, Inl NotFound)"
proof -
  note w = resolve_commits_in_two_units
             [where d = direction_db and payload = choose_b_payload and ev = offline_env
                and pid = 7 and stored = direction_step, THEN conjunct2, THEN conjunct2]
  from w direction_found(1,2)
  have other: "resolve_workflow_step offline_env direction_db 7 choose_b_payload
       = (direction_db, Inl NotFound)"
    by simp
  note a = resolve_commits_in_two_units
             [where d = stalled_db and payload = choose_b_payload and ev = offline_env
                and stored = empty_direction_step and pid = 1 and p = tight_project
                and e = IndexError, THEN conjunct1]
  from direction_generation obtain g where
    g: "generate_next_steps offline_env (mark_resolved offline_env choose_b_payload direction_step)
          tight_project choose_b_payload = Inr g"
    and n: "length (created g) = 1" "length (new_documents g) = 2" "length (new_tasks g) = 4"
    by auto
  note b = resolve_commits_in_two_units
             [where d = direction_db and payload = choose_b_payload and ev = offline_env
                and stored = direction_step and pid = 1 and p = tight_project and g = g,
              THEN conjunct2, THEN conjunct1]
  note c = resolve_commits_in_two_units
             [where d = fresh_db and payload = choose_b_payload and ev = offline_env and pid = 1,
              THEN conjunct2, THEN conjunct2]
  have nf: "get_step fresh_db (step_id choose_b_payload) = None"
    by (simp add: get_step_def fresh_db_def)
  have sizes: "length (steps stalled_db) = 1" "documents stalled_db = []" "tasks stalled_db = []"
    "length (steps direction_db) = 1" "documents direction_db = []" "tasks direction_db = []"
    by (simp_all add: stalled_db_def direction_db_def)
  from a stalled_found stalled_generation
  have a': "resolve_workflow_step offline_env stalled_db 1 choose_b_payload
     = (update_step (mark_resolved offline_env choose_b_payload empty_direction_step) stalled_db,
        Inl IndexError)
   \<and> status (mark_resolved offline_env choose_b_payload empty_direction_step) = ''resolved''
   \<and> length (steps (fst (resolve_workflow_step offline_env stalled_db 1 choose_b_payload))) = 1
   \<and> documents (fst (resolve_workflow_step offline_env stalled_db 1 choose_b_payload)) = []
   \<and> tasks (fst (resolve_workflow_step offline_env stalled_db 1 choose_b_payload)) = []"
    by (auto simp: sizes)
  from b direction_found g n
  have b': "length (steps (fst (resolve_workflow_step offline_env direction_db 1 choose_b_payload))) = 2
   \<and> length (documents (fst (resolve_workflow_step offline_env direction_db 1 choose_b_payload))) = 2
   \<and> length (tasks (fst (resolve_workflow_step offline_env direction_db 1 choose_b_payload))) = 4"
    by (auto simp: sizes)
  from c nf have "resolve_workflow_step offline_env fresh_db 1 choose_b_payload = (fresh_db, Inl NotFound)"
    by simp
  with a' b' other show ?thesis by (elim conjE) (intro conjI; assumption)
qed

theorem resolved_without_next_steps_counterexample:
  "snd (resolve_workflow_step offline_env stalled_db 1 choose_b_payload) = Inl IndexError
   \<and> map status (steps stalled_db) = [''active'']
   \<and> map status (steps (fst (resolve_workflow_step offline_env stalled_db 1 choose_b_payload)))
       = [''resolved'']
   \<and> map chosen_option (steps (fst (resolve_workflow_step offline_env stalled_db 1 choose_b_payload)))
       = [Some ''B'']
   \<and> fst (resolve_workflow_step offline_env stalled_db 1 choose_b_payload) \<noteq> stalled_db"
proof -
  have r: "resolve_workflow_step offline_env stalled_db 1 choose_b_payload
     = (update_step (mark_resolved offline_env choose_b_payload empty_direction_step) stalled_db,
        Inl IndexError)"
    using resolve_found [OF stalled_found, of offline_env] stalled_generation by simp
  have s: "map status (steps stalled_db) = [''active'']"
    by (simp add: stalled_db_def empty_direction_step_def direction_step_def)
  have t: "map status (steps (update_step
             (mark_resolved offline_env choose_b_payload empty_direction_step) stalled_db))
           = [''resolved'']"
    "map chosen_option (steps (update_step
             (mark_resolved offline_env choose_b_payload empty_direction_step) stalled_db))
           = [Some ''B'']"
    by (simp_all add: update_step_def stalled_db_def mark_resolved_def choose_b_payload_def)
  from s t have "update_step (mark_resolved offline_env choose_b_payload empty_direction_step)
                   stalled_db \<noteq> stalled_db"
    by auto
  with r s t show ?thesis by simp
qed

end
